theory Spec2Isabelle
  imports Main "HOL-Library.Char_ord" "HOL-Library.List_Lexorder"
begin

section \<open>JavaScript strings\<close>

text \<open>
  The formatter works on JavaScript strings. A string is modelled as a list of 8-bit code
  units (\<open>string\<close>); case mapping is the one of the ASCII letters, all other code units are
  caseless. The white space class of \<open>\s\<close> and of \<open>trim\<close> is the set of white space and line
  terminator code units below 256.
\<close>

definition isSpace :: "char \<Rightarrow> bool" where
  "isSpace c \<longleftrightarrow>
     c = CHR 0x09 \<or> c = CHR 0x0A \<or> c = CHR 0x0B \<or> c = CHR 0x0C \<or> c = CHR 0x0D
     \<or> c = CHR 0x20 \<or> c = CHR 0xA0"

definition isLineTerminator :: "char \<Rightarrow> bool" where
  "isLineTerminator c \<longleftrightarrow> c = CHR 0x0A \<or> c = CHR 0x0D"

definition upperLetters :: string where
  "upperLetters = ''ABCDEFGHIJKLMNOPQRSTUVWXYZ''"

definition lowerLetters :: string where
  "lowerLetters = ''abcdefghijklmnopqrstuvwxyz''"

definition isAlpha :: "char \<Rightarrow> bool" where
  "isAlpha c \<longleftrightarrow> c \<in> set upperLetters \<or> c \<in> set lowerLetters"

definition toLowerChar :: "char \<Rightarrow> char" where
  "toLowerChar c = (case map_of (zip upperLetters lowerLetters) c of Some d \<Rightarrow> d | None \<Rightarrow> c)"

definition toUpperChar :: "char \<Rightarrow> char" where
  "toUpperChar c = (case map_of (zip lowerLetters upperLetters) c of Some d \<Rightarrow> d | None \<Rightarrow> c)"

definition toLowerCase :: "string \<Rightarrow> string" where
  "toLowerCase s = map toLowerChar s"

definition toUpperCase :: "string \<Rightarrow> string" where
  "toUpperCase s = map toUpperChar s"

text \<open>\<open>s.startsWith(p)\<close> and \<open>s.endsWith(p)\<close>.\<close>

fun startsWith :: "string \<Rightarrow> string \<Rightarrow> bool" where
  "startsWith s [] = True"
| "startsWith [] (p # ps) = False"
| "startsWith (c # cs) (p # ps) = (c = p \<and> startsWith cs ps)"

definition endsWith :: "string \<Rightarrow> string \<Rightarrow> bool" where
  "endsWith s p = startsWith (rev s) (rev p)"

text \<open>\<open>s.indexOf(p)\<close> and \<open>s.lastIndexOf(p)\<close>; \<open>-1\<close> when \<open>p\<close> does not occur.\<close>

fun indexOfFrom :: "string \<Rightarrow> string \<Rightarrow> nat \<Rightarrow> int" where
  "indexOfFrom [] p k = (if p = [] then int k else -1)"
| "indexOfFrom (c # cs) p k =
     (if startsWith (c # cs) p then int k else indexOfFrom cs p (Suc k))"

definition indexOf :: "string \<Rightarrow> string \<Rightarrow> int" where
  "indexOf s p = indexOfFrom s p 0"

fun lastIndexOfFrom :: "string \<Rightarrow> string \<Rightarrow> nat \<Rightarrow> int \<Rightarrow> int" where
  "lastIndexOfFrom [] p k best = (if p = [] then int k else best)"
| "lastIndexOfFrom (c # cs) p k best =
     lastIndexOfFrom cs p (Suc k) (if startsWith (c # cs) p then int k else best)"

definition lastIndexOf :: "string \<Rightarrow> string \<Rightarrow> int" where
  "lastIndexOf s p = lastIndexOfFrom s p 0 (-1)"

definition includesStr :: "string \<Rightarrow> string \<Rightarrow> bool" where
  "includesStr s p \<longleftrightarrow> indexOf s p \<noteq> -1"

text \<open>
  \<open>s.slice(a, b)\<close> and \<open>s.slice(a)\<close> on integer indices (a negative index counts from the
  end), and the same calls when an index is \<open>NaN\<close> (\<open>None\<close>), which \<open>slice\<close> reads as 0.
\<close>

definition relIndex :: "nat \<Rightarrow> int \<Rightarrow> nat" where
  "relIndex len k = (if k < 0 then nat (int len + k) else min (nat k) len)"

definition slice2 :: "string \<Rightarrow> int \<Rightarrow> int \<Rightarrow> string" where
  "slice2 s a b =
     (let lo = relIndex (length s) a; hi = relIndex (length s) b
      in take (hi - lo) (drop lo s))"

definition slice1 :: "string \<Rightarrow> int \<Rightarrow> string" where
  "slice1 s a = drop (relIndex (length s) a) s"

definition nanToZero :: "int option \<Rightarrow> int" where
  "nanToZero k = (case k of None \<Rightarrow> 0 | Some v \<Rightarrow> v)"

text \<open>\<open>s.substring(a)\<close> and \<open>s.substring(a, b)\<close> with \<open>a \<le> b\<close> natural numbers.\<close>

definition substring1 :: "string \<Rightarrow> nat \<Rightarrow> string" where
  "substring1 s a = drop a s"

definition substring2 :: "string \<Rightarrow> int \<Rightarrow> int \<Rightarrow> string" where
  "substring2 s a b =
     (let x = min (nat a) (length s); y = min (nat b) (length s)
      in take (max x y - min x y) (drop (min x y) s))"

text \<open>\<open>s.trim()\<close>, \<open>s.replace(/\s+/g, '')\<close> (the same as \<open>/\s/g\<close>) and \<open>s.replace(/,\s/g, '')\<close>.\<close>

definition trim :: "string \<Rightarrow> string" where
  "trim s = rev (dropWhile isSpace (rev (dropWhile isSpace s)))"

definition removeWhitespace :: "string \<Rightarrow> string" where
  "removeWhitespace s = filter (\<lambda>c. \<not> isSpace c) s"

fun removeCommaSpace :: "string \<Rightarrow> string" where
  "removeCommaSpace (c # d # r) =
     (if c = CHR '','' \<and> isSpace d then removeCommaSpace r else c # removeCommaSpace (d # r))"
| "removeCommaSpace s = s"

text \<open>\<open>xs.join(sep)\<close> on an array of strings, and \<open>s.split(sep)\<close> for a one-character separator.\<close>

fun join :: "string list \<Rightarrow> string \<Rightarrow> string" where
  "join [] sep = []"
| "join [x] sep = x"
| "join (x # y # r) sep = x @ sep @ join (y # r) sep"

fun splitChar :: "string \<Rightarrow> char \<Rightarrow> string list" where
  "splitChar [] d = [[]]"
| "splitChar (c # cs) d =
     (if c = d then [] # splitChar cs d
      else (case splitChar cs d of [] \<Rightarrow> [[c]] | p # ps \<Rightarrow> (c # p) # ps))"

section \<open>Regular expressions\<close>

text \<open>
  The patterns the formatter builds are modelled by their syntax trees, and matching by the
  backtracking semantics of ECMAScript: \<open>rxm\<close> lists every way a pattern can match at the
  start of a string, in the order in which the backtracking matcher tries them, so that the
  head of the list is the match JavaScript reports. A result is the rest of the input with
  the captures made. \<open>Star\<close> is the greedy and \<open>LStar\<close> the lazy repetition; an iteration that
  consumes nothing is rejected, as in ECMAScript. Groups whose captures the program never
  reads are written without \<open>Grp\<close>.
\<close>

datatype cls = CDot | CSpace | CNonAlpha

datatype rx =
    Eps
  | Lit string
  | Cls cls
  | Seq rx rx
  | Alt rx rx
  | Star rx
  | LStar rx
  | Grp nat rx
  | Bol
  | Eol
  | Look rx

definition inCls :: "cls \<Rightarrow> char \<Rightarrow> bool" where
  "inCls k c = (case k of
      CDot \<Rightarrow> \<not> isLineTerminator c
    | CSpace \<Rightarrow> isSpace c
    | CNonAlpha \<Rightarrow> \<not> isAlpha c)"

text \<open>A literal, under the \<open>i\<close> flag (\<open>ci\<close>) compared after canonicalisation to upper case.\<close>

fun litMatch :: "bool \<Rightarrow> string \<Rightarrow> string \<Rightarrow> string option" where
  "litMatch ci [] s = Some s"
| "litMatch ci (p # ps) [] = None"
| "litMatch ci (p # ps) (c # cs) =
     (if (if ci then toUpperChar c = toUpperChar p else c = p) then litMatch ci ps cs else None)"

type_synonym captures = "(nat \<times> string) list"

function rxm :: "bool \<Rightarrow> nat \<Rightarrow> rx \<Rightarrow> string \<Rightarrow> captures \<Rightarrow> (string \<times> captures) list" where
  "rxm ci n0 Eps s caps = [(s, caps)]"
| "rxm ci n0 (Lit l) s caps = (case litMatch ci l s of None \<Rightarrow> [] | Some s' \<Rightarrow> [(s', caps)])"
| "rxm ci n0 (Cls k) s caps =
     (case s of [] \<Rightarrow> [] | c # cs \<Rightarrow> if inCls k c then [(cs, caps)] else [])"
| "rxm ci n0 (Seq a b) s caps =
     concat (map (\<lambda>p. rxm ci n0 b (fst p) (snd p)) (rxm ci n0 a s caps))"
| "rxm ci n0 (Alt a b) s caps = rxm ci n0 a s caps @ rxm ci n0 b s caps"
| "rxm ci n0 (Star a) s caps =
     concat (map (\<lambda>p. if length (fst p) < length s then rxm ci n0 (Star a) (fst p) (snd p) else [])
                 (rxm ci n0 a s caps))
     @ [(s, caps)]"
| "rxm ci n0 (LStar a) s caps =
     (s, caps) #
     concat (map (\<lambda>p. if length (fst p) < length s then rxm ci n0 (LStar a) (fst p) (snd p) else [])
                 (rxm ci n0 a s caps))"
| "rxm ci n0 (Grp g a) s caps =
     map (\<lambda>p. (fst p, (g, take (length s - length (fst p)) s) # snd p)) (rxm ci n0 a s caps)"
| "rxm ci n0 Bol s caps = (if length s = n0 then [(s, caps)] else [])"
| "rxm ci n0 Eol s caps = (if s = [] then [(s, caps)] else [])"
| "rxm ci n0 (Look a) s caps = (if rxm ci n0 a s caps = [] then [] else [(s, caps)])"
  by pat_completeness auto
termination
  by (relation "inv_image (less_than <*lex*> less_than)
                  (\<lambda>(ci :: bool, n0 :: nat, r :: rx, s :: string, caps :: captures).
                     (size r, length s))") auto


text \<open>
  \<open>matchAt\<close> is one attempt of the matcher at the start of \<open>s\<close> (the length matched and the
  captures); \<open>searchFrom\<close> moves the start to the right until an attempt succeeds, which is
  \<open>RegExp.prototype.exec\<close>; \<open>strMatch\<close> is \<open>s.match(re)\<close> for a pattern without the \<open>g\<close> flag.
\<close>

definition matchAt :: "bool \<Rightarrow> nat \<Rightarrow> rx \<Rightarrow> string \<Rightarrow> (nat \<times> captures) option" where
  "matchAt ci n0 r s =
     (case rxm ci n0 r s [] of [] \<Rightarrow> None | p # _ \<Rightarrow> Some (length s - length (fst p), snd p))"

fun searchFrom :: "bool \<Rightarrow> nat \<Rightarrow> rx \<Rightarrow> string \<Rightarrow> nat \<Rightarrow> (nat \<times> nat \<times> captures) option" where
  "searchFrom ci n0 r [] k =
     (case matchAt ci n0 r [] of None \<Rightarrow> None | Some m \<Rightarrow> Some (k, fst m, snd m))"
| "searchFrom ci n0 r (x # xs) k =
     (case matchAt ci n0 r (x # xs) of
        None \<Rightarrow> searchFrom ci n0 r xs (Suc k)
      | Some m \<Rightarrow> Some (k, fst m, snd m))"

definition strMatch :: "bool \<Rightarrow> rx \<Rightarrow> string \<Rightarrow> (nat \<times> nat \<times> captures) option" where
  "strMatch ci r s = searchFrom ci (length s) r s 0"

definition rxTest :: "bool \<Rightarrow> rx \<Rightarrow> string \<Rightarrow> bool" where
  "rxTest ci r s \<longleftrightarrow> strMatch ci r s \<noteq> None"

text \<open>
  \<open>s.split(re)\<close>: \<open>cur\<close> holds, reversed, the piece read since the last separator. A match
  that ends where the last separator ended is skipped. With \<open>keep\<close> the pattern is wrapped in
  one capturing group, so that every separator is put into the result as well.
\<close>

function splitRx :: "bool \<Rightarrow> bool \<Rightarrow> nat \<Rightarrow> rx \<Rightarrow> string \<Rightarrow> string \<Rightarrow> string list" where
  "splitRx ci keep n0 r cur [] = [rev cur]"
| "splitRx ci keep n0 r cur (x # xs) =
     (case matchAt ci n0 r (x # xs) of
        None \<Rightarrow> splitRx ci keep n0 r (x # cur) xs
      | Some m \<Rightarrow>
          if fst m = 0 \<and> cur = [] then splitRx ci keep n0 r (x # cur) xs
          else rev cur # (if keep then [take (fst m) (x # xs)] else [])
                 @ splitRx ci keep n0 r [] (drop (fst m) (x # xs)))"
  by pat_completeness auto
termination
  by (relation "inv_image (less_than <*lex*> less_than)
                  (\<lambda>(ci :: bool, keep :: bool, n0 :: nat, r :: rx, cur :: string, s :: string).
                     (length s, if cur = [] then 0 else (1 :: nat)))") auto

definition strSplit :: "bool \<Rightarrow> bool \<Rightarrow> rx \<Rightarrow> string \<Rightarrow> string list" where
  "strSplit ci keep r s =
     (if s = [] then (if matchAt ci 0 r [] = None then [[]] else [])
      else splitRx ci keep (length s) r [] s)"

text \<open>\<open>[...s.matchAll(re)]\<close> for a pattern with the \<open>g\<close> flag: the matched texts, left to right.\<close>

function matchAllRx :: "bool \<Rightarrow> nat \<Rightarrow> rx \<Rightarrow> string \<Rightarrow> string list" where
  "matchAllRx ci n0 r [] = (case matchAt ci n0 r [] of None \<Rightarrow> [] | Some m \<Rightarrow> [[]])"
| "matchAllRx ci n0 r (x # xs) =
     (case matchAt ci n0 r (x # xs) of
        None \<Rightarrow> matchAllRx ci n0 r xs
      | Some m \<Rightarrow>
          take (fst m) (x # xs) #
          (if fst m = 0 then matchAllRx ci n0 r xs
           else matchAllRx ci n0 r (drop (fst m) (x # xs))))"
  by pat_completeness auto
termination
  by (relation "measure (\<lambda>(ci :: bool, n0 :: nat, r :: rx, s :: string). length s)") auto

definition strMatchAll :: "bool \<Rightarrow> rx \<Rightarrow> string \<Rightarrow> string list" where
  "strMatchAll ci r s = matchAllRx ci (length s) r s"

text \<open>Pattern combinators: an alternation of a list, a one-or-more lazy repetition, an option.\<close>

fun alts :: "rx list \<Rightarrow> rx" where
  "alts [] = Eps"
| "alts [r] = r"
| "alts (r # rs) = Alt r (alts rs)"

fun seqs :: "rx list \<Rightarrow> rx" where
  "seqs [] = Eps"
| "seqs [r] = r"
| "seqs (r # rs) = Seq r (seqs rs)"

definition LPlus :: "rx \<Rightarrow> rx" where
  "LPlus r = Seq r (LStar r)"

definition Opt :: "rx \<Rightarrow> rx" where
  "Opt r = Alt r Eps"


section \<open>Values, errors and the host\<close>

text \<open>
  A field of the namespace is a string, a number, a boolean, an array of strings or \<open>null\<close>;
  \<open>JUndefined\<close> is the value of a property that is absent. Numbers are modelled as
  integers (sizes in bytes, seeders, seasons, durations in seconds). An array is an object:
  \<open>JArr a\<close> is the array at address \<open>a\<close> of the store, and \<open>===\<close> compares two arrays by
  their addresses.
\<close>

datatype jsval =
    JUndefined
  | JNull
  | JBool bool
  | JNum int
  | JStr string
  | JArr nat

text \<open>
  The store of arrays: the array at address \<open>a\<close> is the \<open>a\<close>-th entry, a new array is put
  at the end. What a run of the evaluator can change is the store and the number of calls
  of \<open>Math.random\<close> made so far; both are threaded through the evaluator as \<open>rstate\<close>.
\<close>

type_synonym store = "string list list"

record rstate =
  draws :: nat
  arrays :: store

definition readArray :: "store \<Rightarrow> nat \<Rightarrow> string list" where
  "readArray h a = (if a < length h then h ! a else [])"

text \<open>
  The operations on arrays that the modifier library uses: the copy \<open>[...value]\<close>, which
  makes a new array, and \<open>sort()\<close> and \<open>reverse()\<close>, which change the array they are called on
  and return it.
\<close>

definition spreadCopy :: "nat \<Rightarrow> store \<Rightarrow> nat \<times> store" where
  "spreadCopy a h = (length h, h @ [readArray h a])"

definition sortInPlace :: "nat \<Rightarrow> store \<Rightarrow> nat \<times> store" where
  "sortInPlace a h = (a, h[a := sort (readArray h a)])"

definition reverseInPlace :: "nat \<Rightarrow> store \<Rightarrow> nat \<times> store" where
  "reverseInPlace a h = (a, h[a := rev (readArray h a)])"

text \<open>A thrown exception is a value of \<open>jsError\<close>; a computation that can throw returns a sum.\<close>

datatype jsError =
    TypeError string
  | SyntaxError string
  | RangeError string
  | Error string

text \<open>
  \<open>ResolvedVariable\<close>: \<open>{ result }\<close> or \<open>{ error }\<close>. An error is the text of its tag.
\<close>

datatype ResolvedVariable = Result jsval | Err string

text \<open>
  What the JavaScript host and the helper module \<open>./utils.js\<close> supply is a parameter of the
  model: \<open>Number(s)\<close> (\<open>None\<close> is \<open>NaN\<close>; the numbers it yields are ordered), the helpers
  \<open>formatBytes\<close> and \<open>formatDuration\<close>, \<open>toLocaleString\<close>, \<open>btoa\<close>, \<open>replaceAll\<close>, the
  construction of a pattern from a string built at run time followed by \<open>split\<close>, and
  \<open>Math.random\<close>: \<open>randomFloor k n\<close> is \<open>Math.floor(Math.random() * n)\<close> at the \<open>k\<close>-th call
  of \<open>Math.random\<close> in a run.
\<close>

record 'n env =
  toNumber :: "string \<Rightarrow> 'n option"
  formatBytes :: "int \<Rightarrow> nat \<Rightarrow> string"
  formatDuration :: "int \<Rightarrow> string"
  toLocaleString :: "int \<Rightarrow> string"
  btoa :: "string \<Rightarrow> string"
  replaceAll :: "string \<Rightarrow> string \<Rightarrow> string \<Rightarrow> string"
  splitByPattern :: "string \<Rightarrow> string \<Rightarrow> jsError + string list"
  randomFloor :: "nat \<Rightarrow> nat \<Rightarrow> nat"

text \<open>\<open>n.toString(radix)\<close> for an integer, and \<open>String(v)\<close> in the store \<open>h\<close>.\<close>

definition digitChar :: "nat \<Rightarrow> char" where
  "digitChar d = ''0123456789abcdefghijklmnopqrstuvwxyz'' ! d"

function showRadix :: "nat \<Rightarrow> nat \<Rightarrow> string" where
  "showRadix b n = (if b < 2 \<or> n < b then [digitChar n] else showRadix b (n div b) @ [digitChar (n mod b)])"
  by pat_completeness auto
termination
  by (relation "measure (\<lambda>(b, n). n)") auto

definition numToString :: "nat \<Rightarrow> int \<Rightarrow> string" where
  "numToString b n = (if n < 0 then CHR ''-'' # showRadix b (nat (- n)) else showRadix b (nat n))"

definition jsString :: "store \<Rightarrow> jsval \<Rightarrow> string" where
  "jsString h v = (case v of
      JUndefined \<Rightarrow> ''undefined''
    | JNull \<Rightarrow> ''null''
    | JBool b \<Rightarrow> (if b then ''true'' else ''false'')
    | JNum n \<Rightarrow> numToString 10 n
    | JStr s \<Rightarrow> s
    | JArr a \<Rightarrow> join (readArray h a) '','')"

text \<open>\<open>typeof v\<close>, and the truth value of \<open>v\<close> in a condition.\<close>

definition typeof :: "jsval \<Rightarrow> string" where
  "typeof v = (case v of
      JUndefined \<Rightarrow> ''undefined''
    | JNull \<Rightarrow> ''object''
    | JBool b \<Rightarrow> ''boolean''
    | JNum n \<Rightarrow> ''number''
    | JStr s \<Rightarrow> ''string''
    | JArr a \<Rightarrow> ''object'')"

definition truthy :: "jsval \<Rightarrow> bool" where
  "truthy v = (case v of
      JUndefined \<Rightarrow> False
    | JNull \<Rightarrow> False
    | JBool b \<Rightarrow> b
    | JNum n \<Rightarrow> n \<noteq> 0
    | JStr s \<Rightarrow> s \<noteq> []
    | JArr a \<Rightarrow> True)"

section \<open>The modifier library\<close>

subsection \<open>\<open>ModifierConstants.stringModifiers\<close>\<close>

definition titleWord :: "string \<Rightarrow> string" where
  "titleWord w = (case toLowerCase w of [] \<Rightarrow> [] | c # cs \<Rightarrow> toUpperChar c # cs)"

definition stringModifierKeys :: "string list" where
  "stringModifierKeys = [''upper'', ''lower'', ''title'', ''length'', ''reverse'', ''base64'', ''string'']"

definition stringModifiers :: "'n env \<Rightarrow> string \<Rightarrow> string \<Rightarrow> string" where
  "stringModifiers env key v =
     (if key = ''upper'' then toUpperCase v
      else if key = ''lower'' then toLowerCase v
      else if key = ''title'' then join (map titleWord (splitChar v CHR '' '')) '' ''
      else if key = ''length'' then numToString 10 (int (length v))
      else if key = ''reverse'' then rev v
      else if key = ''base64'' then btoa env v
      else v)"

subsection \<open>\<open>ModifierConstants.arrayModifiers\<close>\<close>

text \<open>
  \<open>arrayModifierGetOrDefault\<close>: \<open>String(value[i])\<close>, which is \<open>undefined\<close> as text when \<open>i\<close> is
  out of range. \<open>random\<close> takes the next draw. \<open>sort\<close> and \<open>reverse\<close> copy the array and
  change the copy, which is their result.
\<close>

definition arrayModifierGetOrDefault :: "string list \<Rightarrow> nat \<Rightarrow> string" where
  "arrayModifierGetOrDefault v i =
     (if length v > 0 then (if i < length v then v ! i else ''undefined'') else [])"

definition arrayModifierKeys :: "string list" where
  "arrayModifierKeys = [''join'', ''length'', ''first'', ''last'', ''random'', ''sort'', ''reverse'']"

definition arrayModifiers :: "'n env \<Rightarrow> string \<Rightarrow> nat \<Rightarrow> rstate \<Rightarrow> jsval \<times> rstate" where
  "arrayModifiers env key a st =
     (let v = readArray (arrays st) a
      in if key = ''join'' then (JStr (join v '', ''), st)
         else if key = ''length'' then (JStr (numToString 10 (int (length v))), st)
         else if key = ''first'' then (JStr (arrayModifierGetOrDefault v 0), st)
         else if key = ''last'' then (JStr (arrayModifierGetOrDefault v (length v - 1)), st)
         else if key = ''random''
           then (JStr (arrayModifierGetOrDefault v (randomFloor env (draws st) (length v))),
                 st\<lparr>draws := Suc (draws st)\<rparr>)
         else if key = ''sort''
           then (let c = spreadCopy a (arrays st); r = sortInPlace (fst c) (snd c)
                 in (JArr (fst r), st\<lparr>arrays := snd r\<rparr>))
         else (let c = spreadCopy a (arrays st); r = reverseInPlace (fst c) (snd c)
               in (JArr (fst r), st\<lparr>arrays := snd r\<rparr>)))"

subsection \<open>\<open>ModifierConstants.numberModifiers\<close>\<close>

definition numberModifierKeys :: "string list" where
  "numberModifierKeys =
     [''comma'', ''hex'', ''octal'', ''binary'', ''bytes'', ''bytes10'', ''bytes2'', ''string'', ''time'']"

definition numberModifiers :: "'n env \<Rightarrow> string \<Rightarrow> int \<Rightarrow> string" where
  "numberModifiers env key v =
     (if key = ''comma'' then toLocaleString env v
      else if key = ''hex'' then numToString 16 v
      else if key = ''octal'' then numToString 8 v
      else if key = ''binary'' then numToString 2 v
      else if key = ''bytes'' then formatBytes env v 1000
      else if key = ''bytes10'' then formatBytes env v 1000
      else if key = ''bytes2'' then formatBytes env v 1024
      else if key = ''string'' then numToString 10 v
      else formatDuration env v)"

subsection \<open>\<open>ModifierConstants.conditionalModifiers\<close>\<close>

definition exists_mod :: "store \<Rightarrow> jsval \<Rightarrow> bool" where
  "exists_mod h v = (case v of
      JUndefined \<Rightarrow> False
    | JNull \<Rightarrow> False
    | JStr s \<Rightarrow> (\<exists>c \<in> set s. \<not> isSpace c)
    | JArr a \<Rightarrow> length (readArray h a) > 0
    | _ \<Rightarrow> True)"

definition exactKeys :: "string list" where
  "exactKeys = [''istrue'', ''isfalse'', ''exists'']"

definition exact :: "store \<Rightarrow> string \<Rightarrow> jsval \<Rightarrow> bool" where
  "exact h key v =
     (if key = ''istrue'' then v = JBool True
      else if key = ''isfalse'' then v = JBool False
      else exists_mod h v)"

text \<open>
  The prefix functions are called with two strings or, for a numeric comparison, with two
  numbers. The three string predicates are methods of a string: called on a number they
  throw a \<open>TypeError\<close>.
\<close>

datatype 'n operands = Strs string string | Nums 'n 'n

definition prefixKeys :: "string list" where
  "prefixKeys = [''$'', ''^'', ''~'', ''='', ''>='', ''>'', ''<='', ''<'']"

definition prefix :: "string \<Rightarrow> ('n :: linorder) operands \<Rightarrow> jsError + bool" where
  "prefix key ops = (case ops of
      Strs v c \<Rightarrow>
        Inr (if key = ''$'' then startsWith v c
             else if key = ''^'' then endsWith v c
             else if key = ''~'' then includesStr v c
             else if key = ''='' then v = c
             else if key = ''>='' then v \<ge> c
             else if key = ''>'' then v > c
             else if key = ''<='' then v \<le> c
             else v < c)
    | Nums v c \<Rightarrow>
        (if key = ''$'' then Inl (TypeError ''value.startsWith is not a function'')
         else if key = ''^'' then Inl (TypeError ''value.endsWith is not a function'')
         else if key = ''~'' then Inl (TypeError ''value.includes is not a function'')
         else Inr (if key = ''='' then v = c
                   else if key = ''>='' then v \<ge> c
                   else if key = ''>'' then v > c
                   else if key = ''<='' then v \<le> c
                   else v < c)))"


subsection \<open>\<open>applySingleModifier\<close>\<close>

text \<open>
  The prefix branch of \<open>applySingleModifier\<close>: the longest key that \<open>mod\<close> starts with, the
  two texts to compare, and the decision whether they are compared as numbers.
\<close>

definition numericPrefixKeys :: "string list" where
  "numericPrefixKeys = [''<'', ''<='', ''>'', ''>='', ''='']"

definition longestPrefix :: "string \<Rightarrow> string option" where
  "longestPrefix modf =
     find (\<lambda>key. startsWith modf key) (sort_key (\<lambda>key. - int (length key)) prefixKeys)"

definition stringCheckOf :: "string \<Rightarrow> string \<Rightarrow> string \<Rightarrow> string" where
  "stringCheckOf stringValue modf modPrefix =
     (let stringCheck = toLowerCase (substring1 modf (length modPrefix))
      in if \<not> (\<exists>c \<in> set stringValue. isSpace c) then removeWhitespace stringCheck
         else stringCheck)"

definition isNumericComparison :: "'n env \<Rightarrow> string \<Rightarrow> string \<Rightarrow> string \<Rightarrow> bool" where
  "isNumericComparison env modPrefix stringValue stringCheck \<longleftrightarrow>
     modPrefix \<in> set numericPrefixKeys
     \<and> toNumber env (removeCommaSpace stringValue) \<noteq> None
     \<and> toNumber env (removeCommaSpace stringCheck) \<noteq> None"

definition prefixOperands :: "'n env \<Rightarrow> string \<Rightarrow> string \<Rightarrow> string \<Rightarrow> 'n operands" where
  "prefixOperands env modPrefix stringValue stringCheck =
     (case (toNumber env (removeCommaSpace stringValue),
            toNumber env (removeCommaSpace stringCheck)) of
        (Some parsedNumericValue, Some parsedNumericCheck) \<Rightarrow>
          if modPrefix \<in> set numericPrefixKeys then Nums parsedNumericValue parsedNumericCheck
          else Strs stringValue stringCheck
      | _ \<Rightarrow> Strs stringValue stringCheck)"

definition prefixConditional ::
  "('n :: linorder) env \<Rightarrow> store \<Rightarrow> jsval \<Rightarrow> string \<Rightarrow> jsError + bool" where
  "prefixConditional env h variable modf =
     (case longestPrefix modf of
        None \<Rightarrow> Inl (TypeError ''Cannot read properties of undefined'')
      | Some modPrefix \<Rightarrow>
          if variable = JUndefined \<or> variable = JNull
          then Inl (TypeError ''Cannot read properties of undefined'')
          else
            let stringValue = toLowerCase (jsString h variable);
                stringCheck = stringCheckOf stringValue modf modPrefix
            in prefix modPrefix (prefixOperands env modPrefix stringValue stringCheck))"

definition isExact :: "string \<Rightarrow> bool" where
  "isExact modf \<longleftrightarrow> modf \<in> set exactKeys"

definition isPrefix :: "string \<Rightarrow> bool" where
  "isPrefix modf \<longleftrightarrow> (\<exists>key \<in> set prefixKeys. startsWith modf key)"

text \<open>The body of the \<open>try\<close> block, and the \<open>catch\<close> that turns every exception into \<open>false\<close>.\<close>

definition conditionalBody ::
  "('n :: linorder) env \<Rightarrow> store \<Rightarrow> jsval \<Rightarrow> string \<Rightarrow> jsError + bool" where
  "conditionalBody env h variable modf =
     (if \<not> exists_mod h variable then Inr False
      else if isExact modf then Inr (exact h modf variable)
      else prefixConditional env h variable modf)"

definition conditional :: "('n :: linorder) env \<Rightarrow> store \<Rightarrow> jsval \<Rightarrow> string \<Rightarrow> bool" where
  "conditional env h variable modf =
     (case conditionalBody env h variable modf of Inl e \<Rightarrow> False | Inr b \<Rightarrow> b)"

text \<open>
  The hard-coded \<open>replace(...)\<close> of the string branch. Its separator pattern is made at run
  time from two characters of the modifier, by the host.
\<close>

definition charAt :: "string \<Rightarrow> int \<Rightarrow> string" where
  "charAt s i = (if i < 0 then [] else take 1 (drop (nat i) s))"

definition nth_opt :: "'a list \<Rightarrow> nat \<Rightarrow> 'a option" where
  "nth_opt xs i = (if i < length xs then Some (xs ! i) else None)"

definition nonEmpty :: "string option \<Rightarrow> bool" where
  "nonEmpty x = (case x of None \<Rightarrow> False | Some s \<Rightarrow> s \<noteq> [])"

definition replaceModifier :: "'n env \<Rightarrow> string \<Rightarrow> string \<Rightarrow> string \<Rightarrow> jsError + jsval" where
  "replaceModifier env variable modf modf0 =
     (let findStartChar = charAt modf 9;
          findEndChar = charAt modf (int (length modf) - 2);
          content = substring2 modf0 9 (int (length modf0) - 2)
      in case splitByPattern env
                (findStartChar @ [CHR 0x5C] @ ''s*,'' @ [CHR 0x5C] @ ''s*'' @ findEndChar) content of
           Inl e \<Rightarrow> Inl e
         | Inr parts \<Rightarrow>
             if \<not> nonEmpty (nth_opt parts 2) \<and> nonEmpty (nth_opt parts 0) \<and> nonEmpty (nth_opt parts 1)
             then Inr (JStr (replaceAll env variable (parts ! 0) (parts ! 1)))
             else Inr JUndefined)"

text \<open>
  \<open>applySingleModifier\<close>: \<open>modf0\<close> is the modifier as spelled (\<open>_mod\<close>), \<open>modf\<close> its lower
  case (\<open>mod\<close>), \<open>st\<close> the state of the run. \<open>JUndefined\<close> is the result \<open>undefined\<close>. The
  result of an array modifier is turned into a string at once (\<open>?.toString()\<close>). (\<open>mod in
  table\<close> is membership in the keys of the table: every modifier passed in has matched the
  modifier pattern, which contains no other property name of an object.)
\<close>

definition applySingleModifier ::
  "('n :: linorder) env \<Rightarrow> jsval \<Rightarrow> string \<Rightarrow> rstate \<Rightarrow> jsError + (jsval \<times> rstate)" where
  "applySingleModifier env variable modf0 st =
     (let modf = toLowerCase modf0
      in if isExact modf \<or> isPrefix modf
         then Inr (JBool (conditional env (arrays st) variable modf), st)
         else (case variable of
             JStr v \<Rightarrow>
               if modf \<in> set stringModifierKeys then Inr (JStr (stringModifiers env modf v), st)
               else if startsWith modf ''replace('' \<and> endsWith modf '')''
               then (case replaceModifier env v modf modf0 of
                       Inl e \<Rightarrow> Inl e
                     | Inr r \<Rightarrow> Inr (r, st))
               else Inr (JUndefined, st)
           | JArr a \<Rightarrow>
               if modf \<in> set arrayModifierKeys
               then (let r = arrayModifiers env modf a st
                     in Inr (JStr (jsString (arrays (snd r)) (fst r)), snd r))
               else if startsWith modf ''join('' \<and> endsWith modf '')''
               then Inr (JStr (join (readArray (arrays st) a)
                                 (substring2 modf0 6 (int (length modf0) - 2))), st)
               else Inr (JUndefined, st)
           | JNum v \<Rightarrow>
               if modf \<in> set numberModifierKeys then Inr (JStr (numberModifiers env modf v), st)
               else Inr (JUndefined, st)
           | _ \<Rightarrow> Inr (JUndefined, st)))"

section \<open>The comparator library\<close>

definition strictEq :: "jsval \<Rightarrow> jsval \<Rightarrow> bool" where
  "strictEq v1 v2 = (case (v1, v2) of
      (JArr a, JArr b) \<Rightarrow> a = b
    | _ \<Rightarrow> v1 = v2)"

definition comparatorKeys :: "string list" where
  "comparatorKeys = [''and'', ''or'', ''xor'', ''neq'', ''equal'', ''left'', ''right'']"

definition and_fn :: "jsval \<Rightarrow> jsval \<Rightarrow> jsval" where
  "and_fn v1 v2 = (if truthy v1 then v2 else v1)"

definition or_fn :: "jsval \<Rightarrow> jsval \<Rightarrow> jsval" where
  "or_fn v1 v2 = (if truthy v1 then v1 else v2)"

definition xor_fn :: "jsval \<Rightarrow> jsval \<Rightarrow> jsval" where
  "xor_fn v1 v2 =
     (if truthy (or_fn v1 v2) then JBool (\<not> truthy (and_fn v1 v2)) else or_fn v1 v2)"

text \<open>
  \<open>ComparatorConstants.comparatorKeyToFuncs[key]\<close>: the function stored under \<open>key\<close>, or
  \<open>undefined\<close> (\<open>None\<close>) when the table has no such key.
\<close>

definition comparatorKeyToFuncs :: "string \<Rightarrow> (jsval \<Rightarrow> jsval \<Rightarrow> jsval) option" where
  "comparatorKeyToFuncs key =
     (if key = ''and'' then Some and_fn
      else if key = ''or'' then Some or_fn
      else if key = ''xor'' then Some xor_fn
      else if key = ''neq'' then Some (\<lambda>v1 v2. JBool (\<not> strictEq v1 v2))
      else if key = ''equal'' then Some (\<lambda>v1 v2. JBool (strictEq v1 v2))
      else if key = ''left'' then Some (\<lambda>v1 v2. v1)
      else if key = ''right'' then Some (\<lambda>v1 v2. v2)
      else None)"

text \<open>Calling what was looked up: calling \<open>undefined\<close> throws a \<open>TypeError\<close>.\<close>

definition callComparator ::
  "(jsval \<Rightarrow> jsval \<Rightarrow> jsval) option \<Rightarrow> jsval \<Rightarrow> jsval \<Rightarrow> jsError + jsval" where
  "callComparator comparatorFn v1 v2 =
     (case comparatorFn of
        None \<Rightarrow> Inl (TypeError ''comparatorFn is not a function'')
      | Some f \<Rightarrow> Inr (f v1 v2))"

definition errorString :: "jsError \<Rightarrow> string" where
  "errorString e = (case e of
      TypeError m \<Rightarrow> ''TypeError: '' @ m
    | SyntaxError m \<Rightarrow> ''SyntaxError: '' @ m
    | RangeError m \<Rightarrow> ''RangeError: '' @ m
    | Error m \<Rightarrow> ''Error: '' @ m)"

section \<open>The grammar builder\<close>

text \<open>
  The shape of the namespace: the section names in the order of \<open>Object.keys\<close>, each with
  its field names. \<open>parseValueShape\<close> is the shape of what \<open>convertStreamToParseValue\<close> builds.
\<close>

type_synonym shape = "(string \<times> string list) list"

definition parseValueShape :: shape where
  "parseValueShape =
     [(''config'', [''addonName'']),
      (''stream'',
        [''filename'', ''folderName'', ''size'', ''folderSize'', ''library'', ''quality'',
         ''resolution'', ''languages'', ''uLanguages'', ''languageEmojis'', ''uLanguageEmojis'',
         ''languageCodes'', ''uLanguageCodes'', ''smallLanguageCodes'', ''uSmallLanguageCodes'',
         ''wedontknowwhatakilometeris'', ''uWedontknowwhatakilometeris'', ''visualTags'',
         ''audioTags'', ''releaseGroup'', ''regexMatched'', ''encode'', ''audioChannels'',
         ''indexer'', ''seeders'', ''year'', ''type'', ''title'', ''season'', ''seasons'',
         ''episode'', ''seasonEpisode'', ''duration'', ''infoHash'', ''age'', ''message'',
         ''proxied'']),
      (''addon'', [''name'', ''presetId'', ''manifestUrl'']),
      (''service'', [''id'', ''shortName'', ''name'', ''cached'']),
      (''tools'', [''removeline'', ''newline'']),
      (''debug'', [''modifier'', ''comparator'', ''json'', ''jsonf''])]"

text \<open>
  \<open>buildVariableRegexPattern\<close>. The two loops that fill a \<open>Set\<close> with lower-cased keys and
  throw at the first key already in it are \<open>addKeys\<close>; a \<open>Set\<close> lists its elements in the order
  of insertion. A section is then looked up by its lower-cased name, and left out when the
  lookup finds nothing.
\<close>

fun addKeys :: "string \<Rightarrow> string list \<Rightarrow> string list \<Rightarrow> jsError + string list" where
  "addKeys pre seen [] = Inr seen"
| "addKeys pre seen (key # keys) =
     (if toLowerCase key \<in> set seen
      then Inl (Error (''Must Remove Case-Insensitive Duplicate: '' @ [CHR 0x27] @ pre @ key
                       @ [CHR 0x27] @ '' in ParseValue''))
      else addKeys pre (seen @ [toLowerCase key]) keys)"

fun validVariableNames :: "shape \<Rightarrow> string list \<Rightarrow> jsError + rx list" where
  "validVariableNames sh [] = Inr []"
| "validVariableNames sh (sectionKey # rest) =
     (case map_of sh sectionKey of
        None \<Rightarrow> validVariableNames sh rest
      | Some section \<Rightarrow>
          (case addKeys (sectionKey @ ''.'') [] section of
             Inl e \<Rightarrow> Inl e
           | Inr sectionSubKeys \<Rightarrow>
               (case validVariableNames sh rest of
                  Inl e \<Rightarrow> Inl e
                | Inr names \<Rightarrow>
                    Inr (seqs [Lit sectionKey, Lit ''.'', alts (map Lit sectionSubKeys)] # names))))"

definition buildVariableRegexPattern :: "shape \<Rightarrow> jsError + rx" where
  "buildVariableRegexPattern sh =
     (case addKeys [] [] (map fst sh) of
        Inl e \<Rightarrow> Inl e
      | Inr sectionKeys \<Rightarrow>
          (case validVariableNames sh sectionKeys of
             Inl e \<Rightarrow> Inl e
           | Inr names \<Rightarrow> Inr (alts names)))"

text \<open>
  \<open>buildModifierRegexPattern\<close>. The keys of \<open>ModifierConstants.modifiers\<close> are those of the
  spread tables, a key that occurs again keeping its first place. The keys of
  \<open>hardcodedModifiersForRegexMatching\<close> are patterns: after the escaping of
  \<open>( ) ' " $ ^ ~ = > <\<close> a dot is still any character and \<open>*?\<close>, \<open>+?\<close> are still lazy repetitions.
\<close>

definition sq :: string where
  "sq = [CHR 0x27]"

definition dq :: string where
  "dq = [CHR 0x22]"

definition replacePattern :: "string \<Rightarrow> string \<Rightarrow> rx" where
  "replacePattern q1 q2 =
     seqs [Lit (''replace('' @ q1), LStar (Cls CDot), Lit q1, LStar (Cls CSpace), Lit '','',
           LStar (Cls CSpace), Lit q2, LStar (Cls CDot), Lit (q2 @ '')'')]"

definition joinPattern :: "string \<Rightarrow> rx" where
  "joinPattern q = seqs [Lit (''join('' @ q), LStar (Cls CDot), Lit (q @ '')'')]"

definition prefixPattern :: "string \<Rightarrow> rx" where
  "prefixPattern key = Seq (Lit key) (LPlus (Cls CDot))"

definition hardcodedModifiersForRegexMatching :: "rx list" where
  "hardcodedModifiersForRegexMatching =
     [replacePattern sq sq, replacePattern dq sq, replacePattern sq dq, replacePattern dq dq,
      joinPattern sq, joinPattern dq,
      prefixPattern ''$'', prefixPattern ''^'', prefixPattern ''~'', prefixPattern ''='',
      prefixPattern ''>='', prefixPattern ''>'', prefixPattern ''<='', prefixPattern ''<'']"

definition firstOccurrences :: "string list \<Rightarrow> string list" where
  "firstOccurrences keys = rev (remdups (rev keys))"

definition modifiers :: "rx list" where
  "modifiers =
     hardcodedModifiersForRegexMatching
     @ map Lit (firstOccurrences
         (stringModifierKeys @ numberModifierKeys @ arrayModifierKeys @ exactKeys @ prefixKeys))"

definition modifierPrefix :: string where
  "modifierPrefix = ''::''"

definition comparatorWrapper :: string where
  "comparatorWrapper = ''::''"

definition buildModifierRegexPattern :: rx where
  "buildModifierRegexPattern = Seq (Lit modifierPrefix) (alts modifiers)"

definition buildComparatorRegexPattern :: rx where
  "buildComparatorRegexPattern =
     seqs [Lit comparatorWrapper, alts (map Lit comparatorKeys), Lit comparatorWrapper]"

definition buildTZLocaleRegexPattern :: rx where
  "buildTZLocaleRegexPattern =
     Seq (Lit modifierPrefix)
       (alts (map Lit [''UTC'', ''GMT'', ''EST'', ''PST'', ''en-US'', ''en-GB'', ''Europe/London'',
                       ''America/New_York'']))"

text \<open>
  \<open>buildCheckRegexPattern\<close>: \<open>checkTFSplit\<close> is put into the pattern as it is, so its two bars
  are alternations: between the brackets the pattern reads a quoted text, or nothing, or a
  quoted text.
\<close>

definition buildCheckRegexPattern :: rx where
  "buildCheckRegexPattern =
     seqs [Lit ''['',
           alts [seqs [Lit dq, Star (Cls CDot), Lit dq], Eps, seqs [Lit dq, Star (Cls CDot), Lit dq]],
           Lit '']'']"

definition buildRegexExpression :: "shape \<Rightarrow> jsError + rx" where
  "buildRegexExpression sh =
     (case buildVariableRegexPattern sh of
        Inl e \<Rightarrow> Inl e
      | Inr variable \<Rightarrow>
          (let variableAndModifiers = Seq variable (Star buildModifierRegexPattern)
           in Inr (seqs [Bol, Lit ''{'', variableAndModifiers,
                         Star (Seq buildComparatorRegexPattern variableAndModifiers),
                         Opt buildTZLocaleRegexPattern, Opt buildCheckRegexPattern,
                         Lit ''}'', Eol])))"


section \<open>The expression evaluator\<close>

text \<open>
  The namespace instance (\<open>ParseValue\<close>): \<open>pv section field\<close> is the value of
  \<open>parseValue[section][field]\<close>; its arrays are in the store. Every section of the shape is
  present in an instance, since the shape is read off an instance built by the same
  function. (\<open>fullStringModifiers\<close> is handed down to \<open>applySingleModifier\<close>, which does not
  read it.)
\<close>

type_synonym ParseValue = "string \<Rightarrow> string \<Rightarrow> jsval"

subsection \<open>\<open>parseModifiedVariable\<close>\<close>

text \<open>\<open>find\<close>: the first key whose lower case is \<open>key\<close>. \<open>!x\<close> holds of \<open>undefined\<close> and of \<open>""\<close>.\<close>

definition find_key :: "string list \<Rightarrow> string \<Rightarrow> string option" where
  "find_key keys key = (case filter (\<lambda>k. key = toLowerCase k) keys of [] \<Rightarrow> None | k # _ \<Rightarrow> Some k)"

definition templateString :: "string option \<Rightarrow> string" where
  "templateString x = (case x of None \<Rightarrow> ''undefined'' | Some s \<Rightarrow> s)"

definition firstPiece :: "string list \<Rightarrow> string" where
  "firstPiece ps = (case ps of [] \<Rightarrow> [] | p # _ \<Rightarrow> p)"

text \<open>The modifiers of a segment, in the order in which they stand in it.\<close>

definition singleValidModRe :: rx where
  "singleValidModRe = Seq buildModifierRegexPattern (Look (Alt (Lit modifierPrefix) Eol))"

definition sortedModMatches :: "string \<Rightarrow> string list" where
  "sortedModMatches allModifiers =
     (if allModifiers = [] then []
      else map (\<lambda>m. slice1 m (int (length modifierPrefix)))
               (strMatchAll False singleValidModRe allModifiers))"

text \<open>
  \<open>parseModifiedVariable\<close> returns a function of the namespace instance: one that returns
  a fixed error (\<open>Failing\<close>), or one that has captured the names of the section and of the
  field and the modifiers (\<open>Reading\<close>).
\<close>

datatype segmentFn =
    Failing string
  | Reading string string "string list"

definition parseModifiedVariable :: "shape \<Rightarrow> string \<Rightarrow> jsError + segmentFn" where
  "parseModifiedVariable sh baseString =
     (let variableType =
            find_key (map fst sh) (toLowerCase (firstPiece (splitChar baseString CHR ''.'')))
      in if \<not> nonEmpty variableType
         then Inr (Failing (''{unknown_variableType('' @ templateString variableType @ '')}''))
         else
           let variableType = the variableType;
               baseString = substring1 baseString (length variableType + 1)
           in case map_of sh variableType of
                None \<Rightarrow> Inl (TypeError ''Cannot convert undefined or null to object'')
              | Some propertyNameKeys \<Rightarrow>
                  let propertyName =
                        find_key propertyNameKeys
                          (toLowerCase (firstPiece (strSplit False False (Cls CNonAlpha) baseString)))
                  in if \<not> nonEmpty propertyName
                     then Inr (Failing (''{unknown_propertyName('' @ variableType @ ''.''
                                        @ templateString propertyName @ '')}''))
                     else
                       let propertyName = the propertyName;
                           allModifiers = substring1 baseString (length propertyName)
                       in Inr (Reading variableType propertyName (sortedModMatches allModifiers)))"

text \<open>
  Calling the function returned. The loop that applies the modifiers ends at the first
  result \<open>undefined\<close>, with the error tag that goes with the type of the property.
\<close>

definition unknownModifier :: "jsval \<Rightarrow> string \<Rightarrow> string" where
  "unknownModifier property lastModMatched =
     (if typeof property \<in> set [''string'', ''number'', ''boolean'']
      then ''{unknown_'' @ typeof property @ ''_modifier('' @ lastModMatched @ '')}''
      else if typeof property = ''object''
      then ''{unknown_array_modifier('' @ lastModMatched @ '')}''
      else ''{unknown_modifier('' @ lastModMatched @ '')}'')"

fun applyModifiers ::
  "('n :: linorder) env \<Rightarrow> jsval \<Rightarrow> jsval \<Rightarrow> string list \<Rightarrow> rstate
     \<Rightarrow> jsError + (ResolvedVariable \<times> rstate)" where
  "applyModifiers env property result [] st = Inr (Result result, st)"
| "applyModifiers env property result (lastModMatched # mods) st =
     (case applySingleModifier env result lastModMatched st of
        Inl e \<Rightarrow> Inl e
      | Inr r \<Rightarrow>
          if fst r = JUndefined then Inr (Err (unknownModifier property lastModMatched), snd r)
          else applyModifiers env property (fst r) mods (snd r))"

fun resolveSegment ::
  "('n :: linorder) env \<Rightarrow> segmentFn \<Rightarrow> ParseValue \<Rightarrow> rstate
     \<Rightarrow> jsError + (ResolvedVariable \<times> rstate)" where
  "resolveSegment env (Failing e) parseValue st = Inr (Err e, st)"
| "resolveSegment env (Reading variableType propertyName mods) parseValue st =
     applyModifiers env (parseValue variableType propertyName)
       (parseValue variableType propertyName) mods st"

subsection \<open>\<open>parseVariable\<close>\<close>

fun evens :: "'a list \<Rightarrow> 'a list" where
  "evens [] = []"
| "evens [x] = [x]"
| "evens (x # y # r) = x # evens r"

fun odds :: "'a list \<Rightarrow> 'a list" where
  "odds [] = []"
| "odds [x] = []"
| "odds (x # y # r) = y # odds r"

text \<open>
  \<open>parseVariable\<close> returns a function too. It has captured the functions of the segments
  (\<open>precompiledResolvedVariableFns\<close>), the keys of the comparators between them and the two
  texts of the check.
\<close>

datatype exprFn = ExprFn
  (segmentFns : "segmentFn list") (foundComparators : "string list")
  (checkTexts : "(string \<times> string) option")

fun parseAll :: "shape \<Rightarrow> string list \<Rightarrow> jsError + segmentFn list" where
  "parseAll sh [] = Inr []"
| "parseAll sh (baseString # rest) =
     (case parseModifiedVariable sh baseString of
        Inl e \<Rightarrow> Inl e
      | Inr f \<Rightarrow> (case parseAll sh rest of Inl e \<Rightarrow> Inl e | Inr fs \<Rightarrow> Inr (f # fs)))"

definition parseVariable ::
  "shape \<Rightarrow> string \<Rightarrow> (string \<times> string) option \<Rightarrow> jsError + exprFn" where
  "parseVariable sh modifiedVariable mod_check =
     (let splitOnComparators = strSplit True True buildComparatorRegexPattern modifiedVariable;
          variableWithModifiers = evens splitOnComparators;
          comparators =
            map (\<lambda>c. slice2 c (int (length comparatorWrapper)) (- int (length comparatorWrapper)))
                (odds splitOnComparators)
      in case parseAll sh variableWithModifiers of
           Inl e \<Rightarrow> Inl e
         | Inr fns \<Rightarrow> Inr (ExprFn fns comparators mod_check))"

text \<open>\<open>precompiledResolvedVariableFns.map((fn) => fn(parseValue))\<close>, one segment after the other.\<close>

fun resolveAll ::
  "('n :: linorder) env \<Rightarrow> segmentFn list \<Rightarrow> ParseValue \<Rightarrow> rstate
     \<Rightarrow> jsError + (ResolvedVariable list \<times> rstate)" where
  "resolveAll env [] parseValue st = Inr ([], st)"
| "resolveAll env (f # fs) parseValue st =
     (case resolveSegment env f parseValue st of
        Inl e \<Rightarrow> Inl e
      | Inr r \<Rightarrow>
          (case resolveAll env fs parseValue (snd r) of
             Inl e \<Rightarrow> Inl e
           | Inr rs \<Rightarrow> Inr (fst r # fst rs, snd rs)))"

text \<open>
  The callback of \<open>reduce\<close>, and \<open>reduce\<close> without an initial value: \<open>keys\<close> holds the
  comparator keys from the one between \<open>prev\<close> and \<open>cur\<close> on. The \<open>try\<close> is around the call
  only.
\<close>

definition isError :: "ResolvedVariable \<Rightarrow> bool" where
  "isError r = (case r of Err e \<Rightarrow> True | Result v \<Rightarrow> False)"

definition resultOf :: "ResolvedVariable \<Rightarrow> jsval" where
  "resultOf r = (case r of Err e \<Rightarrow> JUndefined | Result v \<Rightarrow> v)"

definition compareStep ::
  "store \<Rightarrow> string \<Rightarrow> ResolvedVariable \<Rightarrow> ResolvedVariable \<Rightarrow> ResolvedVariable" where
  "compareStep h compareKey prev cur =
     (case callComparator (comparatorKeyToFuncs compareKey) (resultOf prev) (resultOf cur) of
        Inr result \<Rightarrow> Result result
      | Inl e \<Rightarrow>
          Err (''{unable_to_compare(<'' @ jsString h (resultOf prev) @ ''>::'' @ compareKey @ ''::<''
               @ jsString h (resultOf cur) @ ''>, '' @ errorString e @ '')}''))"

fun reduceResolved ::
  "store \<Rightarrow> ResolvedVariable \<Rightarrow> ResolvedVariable list \<Rightarrow> string list
     \<Rightarrow> jsError + ResolvedVariable" where
  "reduceResolved h prev [] keys = Inr prev"
| "reduceResolved h prev (cur # rest) keys =
     (if isError prev then reduceResolved h prev rest (tl keys)
      else if isError cur then reduceResolved h cur rest (tl keys)
      else (case keys of
              [] \<Rightarrow> Inl (TypeError ''Cannot destructure property of undefined'')
            | compareKey # keys' \<Rightarrow>
                reduceResolved h (compareStep h compareKey prev cur) rest keys'))"

text \<open>
  Calling the function that \<open>parseVariable\<close> returned: the comparator logic
  (\<open>compareVariables\<close>), then the check logic around it.
\<close>

definition compareVariables ::
  "('n :: linorder) env \<Rightarrow> exprFn \<Rightarrow> ParseValue \<Rightarrow> rstate
     \<Rightarrow> jsError + (ResolvedVariable \<times> rstate)" where
  "compareVariables env f parseValue st =
     (case resolveAll env (segmentFns f) parseValue st of
        Inl e \<Rightarrow> Inl e
      | Inr rs \<Rightarrow>
          (case fst rs of
             [] \<Rightarrow> Inl (TypeError ''Reduce of empty array with no initial value'')
           | r # rest \<Rightarrow>
               (case reduceResolved (arrays (snd rs)) r rest (foundComparators f) of
                  Inl e \<Rightarrow> Inl e
                | Inr reduced \<Rightarrow> Inr (reduced, snd rs))))"

definition checkResolved ::
  "store \<Rightarrow> (string \<times> string) option \<Rightarrow> ResolvedVariable \<Rightarrow> ResolvedVariable" where
  "checkResolved h mod_check resolved =
     (case mod_check of
        None \<Rightarrow> resolved
      | Some tf \<Rightarrow>
          (case resultOf resolved of
             JBool b \<Rightarrow> Result (JStr (if b then fst tf else snd tf))
           | v \<Rightarrow> Err (''{cannot_coerce_boolean_for_check_from('' @ jsString h v @ '')}'')))"

definition resolveExpr ::
  "('n :: linorder) env \<Rightarrow> exprFn \<Rightarrow> ParseValue \<Rightarrow> rstate
     \<Rightarrow> jsError + (ResolvedVariable \<times> rstate)" where
  "resolveExpr env f parseValue st =
     (case compareVariables env f parseValue st of
        Inl e \<Rightarrow> Inl e
      | Inr r \<Rightarrow> Inr (checkResolved (arrays (snd r)) (checkTexts f) (fst r), snd r))"

section \<open>The template compiler\<close>

text \<open>
  \<open>compileTemplateHelper\<close> returns a closure over the rest of the template and the list
  \<open>compiledVariableTemplateFns\<close>. A \<open>node\<close> is one entry of that list: its \<open>insertedIndex\<close>
  (which is the \<open>leftBracketIndex\<close> of its closure \<open>getResolvedVariable\<close>) and what the closure
  has captured. Calling the closure is \<open>getResolvedVariable\<close> below. (\<open>mod_tzlocale\<close> is
  captured too; nothing reads it.)
\<close>

datatype modCheck = ModCheck
  (mc_true : string) (mc_false : string) (offsetFromVariable : int) (offsetFromTrueCase : int)

datatype node = Node
  (insertedIndex : nat)
  (variableTemplateWhitespace : string)
  (globalVariableTemplate : string)
  (mod_check : "modCheck option")
  (numWhitespaceRemovedBeforeN : "nat list")
  (nestedVariablesWIndices : "node list")

definition PLACEHOLDER :: string where
  "PLACEHOLDER = ''X''"

subsection \<open>Evaluating a compiled expression\<close>

definition replacementOf :: "store \<Rightarrow> ResolvedVariable \<Rightarrow> string" where
  "replacementOf h r = (case r of
      Err e \<Rightarrow> e
    | Result v \<Rightarrow> (case v of JUndefined \<Rightarrow> [] | JNull \<Rightarrow> [] | _ \<Rightarrow> jsString h v))"

text \<open>
  \<open>addResolvedVariable\<close>: the index is \<open>NaN\<close> (\<open>None\<close>) when it was computed from a key that
  \<open>numWhitespaceRemovedBeforeN\<close> does not have.
\<close>

definition addResolvedVariable :: "string \<Rightarrow> string \<Rightarrow> int option \<Rightarrow> string" where
  "addResolvedVariable resolved str startIndex =
     slice2 str 0 (nanToZero startIndex) @ resolved
     @ slice1 str (nanToZero (map_option (\<lambda>i. i + int (length PLACEHOLDER)) startIndex))"

text \<open>
  One round of the \<open>forEach\<close> over the nested expressions: \<open>resolved\<close> is put into the false
  text, the true text or the variable text.
\<close>

definition spliceNested ::
  "nat \<Rightarrow> string \<Rightarrow> nat list \<Rightarrow> nat \<Rightarrow> string \<Rightarrow> string \<times> modCheck option
     \<Rightarrow> string \<times> modCheck option" where
  "spliceNested leftBracketIndex vtw nws nestedIndex resolved st =
     (let variableTemplate = fst st;
          relativeInsertIndex = int nestedIndex - int leftBracketIndex
      in case snd st of
           None \<Rightarrow>
             (addResolvedVariable resolved variableTemplate
                (map_option (\<lambda>w. relativeInsertIndex - int w) (nth_opt nws (nat relativeInsertIndex))),
              None)
         | Some mc \<Rightarrow>
             let trueCaseOffset = int (length (''{'' @ vtw)) + offsetFromVariable mc;
                 falseCaseOffset = trueCaseOffset + int (length (mc_true mc)) + offsetFromTrueCase mc
             in if relativeInsertIndex \<ge> falseCaseOffset
                then (variableTemplate,
                      Some (ModCheck (mc_true mc)
                              (addResolvedVariable resolved (mc_false mc)
                                 (Some (relativeInsertIndex - falseCaseOffset)))
                              (offsetFromVariable mc) (offsetFromTrueCase mc)))
                else if relativeInsertIndex \<ge> trueCaseOffset
                then (variableTemplate,
                      Some (ModCheck
                              (addResolvedVariable resolved (mc_true mc)
                                 (Some (relativeInsertIndex - trueCaseOffset)))
                              (mc_false mc) (offsetFromVariable mc) (offsetFromTrueCase mc)))
                else (addResolvedVariable resolved variableTemplate
                        (map_option (\<lambda>w. relativeInsertIndex - int w)
                           (nth_opt nws (nat relativeInsertIndex))),
                      Some mc))"

fun getResolvedVariable ::
  "('n :: linorder) env \<Rightarrow> shape \<Rightarrow> node \<Rightarrow> ParseValue \<Rightarrow> rstate
     \<Rightarrow> jsError + (ResolvedVariable \<times> rstate)"
and resolveNested ::
  "('n :: linorder) env \<Rightarrow> shape \<Rightarrow> nat \<Rightarrow> string \<Rightarrow> nat list \<Rightarrow> node list \<Rightarrow> ParseValue
     \<Rightarrow> string \<times> modCheck option \<Rightarrow> rstate
     \<Rightarrow> jsError + ((string \<times> modCheck option) \<times> rstate)" where
  "getResolvedVariable env sh (Node leftBracketIndex vtw gvt mc nws nested) parseValue st =
     (case resolveNested env sh leftBracketIndex vtw nws nested parseValue (gvt, mc) st of
        Inl e \<Rightarrow> Inl e
      | Inr r \<Rightarrow>
          (case parseVariable sh (fst (fst r))
                  (map_option (\<lambda>c. (mc_true c, mc_false c)) (snd (fst r))) of
             Inl e \<Rightarrow> Inl e
           | Inr f \<Rightarrow> resolveExpr env f parseValue (snd r)))"
| "resolveNested env sh leftBracketIndex vtw nws [] parseValue acc st = Inr (acc, st)"
| "resolveNested env sh leftBracketIndex vtw nws (n # ns) parseValue acc st =
     (case getResolvedVariable env sh n parseValue st of
        Inl e \<Rightarrow> Inl e
      | Inr r \<Rightarrow>
          resolveNested env sh leftBracketIndex vtw nws ns parseValue
            (spliceNested leftBracketIndex vtw nws (insertedIndex n)
               (replacementOf (arrays (snd r)) (fst r)) acc)
            (snd r))"

text \<open>The closure that \<open>compileTemplateHelper\<close> returns: the entries are used last to first.\<close>

fun substituteAll ::
  "('n :: linorder) env \<Rightarrow> shape \<Rightarrow> node list \<Rightarrow> ParseValue \<Rightarrow> string \<Rightarrow> rstate
     \<Rightarrow> jsError + (string \<times> rstate)" where
  "substituteAll env sh [] parseValue resultStr st = Inr (resultStr, st)"
| "substituteAll env sh (n # ns) parseValue resultStr st =
     (case getResolvedVariable env sh n parseValue st of
        Inl e \<Rightarrow> Inl e
      | Inr r \<Rightarrow>
          substituteAll env sh ns parseValue
            (take (insertedIndex n) resultStr @ replacementOf (arrays (snd r)) (fst r)
             @ drop (insertedIndex n + length PLACEHOLDER) resultStr)
            (snd r))"

definition runCompiled ::
  "('n :: linorder) env \<Rightarrow> shape \<Rightarrow> string \<times> node list \<Rightarrow> ParseValue \<Rightarrow> rstate
     \<Rightarrow> jsError + (string \<times> rstate)" where
  "runCompiled env sh compiled parseValue st =
     substituteAll env sh (rev (snd compiled)) parseValue (fst compiled) st"


subsection \<open>Compiling\<close>

text \<open>
  \<open>getMatches\<close>: the left brackets on the stack are tried from the last one pushed
  (\<open>Suc j\<close> stands for the index \<open>j\<close>); the result is the index into the stack and the text
  between the brackets.
\<close>

fun getMatches :: "rx \<Rightarrow> string \<Rightarrow> nat \<Rightarrow> nat list \<Rightarrow> nat \<Rightarrow> (nat \<times> string) option" where
  "getMatches re str i leftBracketIndices 0 = None"
| "getMatches re str i leftBracketIndices (Suc j) =
     (let potentialVariableTemplate = slice2 str (int (leftBracketIndices ! j)) (int i + 1)
      in if rxTest True re (removeWhitespace potentialVariableTemplate)
         then Some (j, potentialVariableTemplate)
         else getMatches re str i leftBracketIndices j)"

text \<open>The second pattern, for the two texts of a check, and the offsets computed from it.\<close>

definition checkTFPattern :: rx where
  "checkTFPattern =
     seqs [Lit ''['', Star (Cls CSpace), Lit dq, Grp 1 (LStar (Cls CDot)), Lit dq,
           Star (Cls CSpace), Lit ''|'', Star (Cls CSpace), Lit ''|'', Star (Cls CSpace),
           Lit dq, Grp 2 (LStar (Cls CDot)), Lit dq, Star (Cls CSpace), Lit '']'',
           Star (Cls CSpace), Lit ''}'', Eol]"

definition capture :: "captures \<Rightarrow> nat \<Rightarrow> string" where
  "capture caps g = (case map_of caps g of None \<Rightarrow> [] | Some t \<Rightarrow> t)"

definition checkTFOf :: "string \<Rightarrow> (string \<times> modCheck) option" where
  "checkTFOf potentialVariableTemplate =
     (case strMatch False checkTFPattern potentialVariableTemplate of
        None \<Rightarrow> None
      | Some m \<Rightarrow>
          let whole = take (fst (snd m)) (drop (fst m) potentialVariableTemplate);
              mod_check_true = capture (snd (snd m)) 1;
              mod_check_false = capture (snd (snd m)) 2;
              relativeTrueIndex = indexOf whole (dq @ mod_check_true @ dq) + 1;
              relativeFalseIndex = lastIndexOf whole (dq @ mod_check_false @ dq) + 1
          in Some (whole,
                   ModCheck mod_check_true mod_check_false relativeTrueIndex
                     (relativeFalseIndex - (relativeTrueIndex + int (length mod_check_true)))))"

text \<open>Removing the white space of the variable text, and counting what was removed.\<close>

definition stripSegment :: "string \<Rightarrow> string" where
  "stripSegment singleVariableTemplate =
     (case strSplit False True buildModifierRegexPattern singleVariableTemplate of
        [] \<Rightarrow> []
      | p # ps \<Rightarrow> concat (map trim (removeWhitespace p # ps)))"

definition stripVariableTemplate :: "string \<Rightarrow> string" where
  "stripVariableTemplate vtw =
     concat (map stripSegment (strSplit False True buildComparatorRegexPattern vtw))"

fun countRemoved :: "string \<Rightarrow> string \<Rightarrow> nat \<Rightarrow> nat list" where
  "countRemoved g [] numWhitespaceRemoved = []"
| "countRemoved [] (w # ws) numWhitespaceRemoved =
     Suc numWhitespaceRemoved # countRemoved [] ws (Suc numWhitespaceRemoved)"
| "countRemoved (x # xs) (w # ws) numWhitespaceRemoved =
     (if x \<noteq> w then Suc numWhitespaceRemoved # countRemoved (x # xs) ws (Suc numWhitespaceRemoved)
      else numWhitespaceRemoved # countRemoved xs ws numWhitespaceRemoved)"

text \<open>
  The length of \<open>checkSuffix\<close>; \<open>repeat\<close> throws a \<open>RangeError\<close> for a negative count.
\<close>

definition checkSuffixLength :: "modCheck option \<Rightarrow> jsError + nat" where
  "checkSuffixLength mc = (case mc of
      None \<Rightarrow> Inr 0
    | Some c \<Rightarrow>
        if offsetFromVariable c < 0 \<or> offsetFromTrueCase c < 0
        then Inl (RangeError ''Invalid count value'')
        else Inr (nat (offsetFromVariable c) + length (mc_true c) + nat (offsetFromTrueCase c)
                  + length (mc_false c) + 2))"

text \<open>
  What one matched expression adds: the new entry, with the entries nested in it taken out
  of the list.
\<close>

definition isNestedIn :: "nat \<Rightarrow> nat \<Rightarrow> node \<Rightarrow> bool" where
  "isNestedIn leftBracketIndex len fn \<longleftrightarrow>
     leftBracketIndex < insertedIndex fn \<and> insertedIndex fn < leftBracketIndex + len"

definition addCompiled :: "nat \<Rightarrow> string \<Rightarrow> node list \<Rightarrow> jsError + node list" where
  "addCompiled leftBracketIndex potentialVariableTemplate fns =
     (let checkTF = checkTFOf potentialVariableTemplate;
          modCheckWithOffsets = map_option snd checkTF;
          vtw = slice2 potentialVariableTemplate 1
                  (- int (length (case checkTF of None \<Rightarrow> ''}'' | Some c \<Rightarrow> fst c)));
          gvt = stripVariableTemplate vtw;
          nws = countRemoved gvt vtw 0
      in case checkSuffixLength modCheckWithOffsets of
           Inl e \<Rightarrow> Inl e
         | Inr n \<Rightarrow>
             let len = length (''{'' @ vtw) + n + length ''}'';
                 nested = rev (filter (isNestedIn leftBracketIndex len) fns)
             in Inr (filter (\<lambda>fn. \<not> isNestedIn leftBracketIndex len fn) fns
                     @ [Node leftBracketIndex vtw gvt modCheckWithOffsets nws nested]))"

text \<open>
  One round of the \<open>while\<close> loop at index \<open>i\<close>: the new text, the index of the next round,
  the stack and the entries.
\<close>

definition compileStep ::
  "rx \<Rightarrow> string \<Rightarrow> nat \<Rightarrow> nat list \<Rightarrow> node list
     \<Rightarrow> jsError + (string \<times> nat \<times> nat list \<times> node list)" where
  "compileStep re str i leftBracketIndices fns =
     (if str ! i \<noteq> CHR ''{'' \<and> str ! i \<noteq> CHR ''}'' then Inr (str, Suc i, leftBracketIndices, fns)
      else if str ! i = CHR ''{'' then Inr (str, Suc i, leftBracketIndices @ [i], fns)
      else if leftBracketIndices = [] then Inr (str, Suc i, leftBracketIndices, fns)
      else (case getMatches re str i leftBracketIndices (length leftBracketIndices) of
              None \<Rightarrow> Inr (str, Suc i, leftBracketIndices, fns)
            | Some m \<Rightarrow>
                let leftBracketIndex = leftBracketIndices ! fst m
                in case addCompiled leftBracketIndex (snd m) fns of
                     Inl e \<Rightarrow> Inl e
                   | Inr fns' \<Rightarrow>
                       Inr (take leftBracketIndex str @ PLACEHOLDER @ drop (Suc i) str,
                            leftBracketIndex + length PLACEHOLDER,
                            take (fst m) leftBracketIndices @ drop (Suc (fst m)) leftBracketIndices,
                            fns')))"

function compileLoop ::
  "rx \<Rightarrow> string \<Rightarrow> nat \<Rightarrow> nat list \<Rightarrow> node list \<Rightarrow> jsError + (string \<times> node list)" where
  "compileLoop re str i leftBracketIndices fns =
     (if i < length str
      then (case compileStep re str i leftBracketIndices fns of
              Inl e \<Rightarrow> Inl e
            | Inr st \<Rightarrow> compileLoop re (fst st) (fst (snd st)) (fst (snd (snd st))) (snd (snd (snd st))))
      else Inr (str, fns))"
  by pat_completeness auto
termination
  by (relation "measure (\<lambda>(re :: rx, str :: string, i :: nat, lbis :: nat list, fns :: node list).
                           length str - i)")
     (auto simp: compileStep_def PLACEHOLDER_def Let_def
           split: if_splits option.splits sum.splits)

definition compileTemplateHelper :: "shape \<Rightarrow> string \<Rightarrow> jsError + (string \<times> node list)" where
  "compileTemplateHelper sh str =
     (if str = [] then Inr ([], [])
      else (case buildRegexExpression sh of
              Inl e \<Rightarrow> Inl e
            | Inr re \<Rightarrow> compileLoop re str 0 [] []))"


subsection \<open>\<open>DebugToolReplacementConstants\<close> and \<open>compileTemplate\<close>\<close>

text \<open>
  The two texts of \<open>DebugToolReplacementConstants\<close>, line by line; the text is the lines
  joined by line feeds.
\<close>

definition debugModifierLines :: "string list" where
  "debugModifierLines =
     [[],
      ''String: {config.addonName}'',
      ''  ::upper {config.addonName::upper}'',
      ''  ::lower {config.addonName::lower}'',
      ''  ::title {config.addonName::title}'',
      ''  ::length {config.addonName::length}'',
      ''  ::reverse {config.addonName::reverse}'',
      ''{tools.newLine}'',
      [],
      ''Number: {stream.size}'',
      ''  ::bytes {stream.size::bytes}'',
      ''  ::time {stream.size::time}'',
      ''  ::hex {stream.size::hex}'',
      ''  ::octal {stream.size::octal}'',
      ''  ::binary {stream.size::binary}'',
      ''{tools.newLine}'',
      [],
      ''Array: {stream.languages}'',
      ''  ::join('' @ sq @ ''-separator-'' @ sq @ '') {stream.languages::join('' @ dq @ ''-separator-'' @ dq @ '')}'',
      ''  ::length {stream.languages::length}'',
      ''  ::first {stream.languages::first}'',
      ''  ::last {stream.languages::last}'',
      ''{tools.newLine}'',
      [],
      ''Conditional:'',
      ''  String: {stream.filename}'',
      ''    filename::exists    {stream.filename::exists['' @ dq @ ''true'' @ dq @ ''||'' @ dq @ ''false'' @ dq @ '']}'',
      ''    filename::$Movie    {stream.filename::$Movie['' @ dq @ ''true'' @ dq @ ''||'' @ dq @ ''false'' @ dq @ '']}'',
      ''    filename::^mkv    {stream.filename::^mkv['' @ dq @ ''true'' @ dq @ ''||'' @ dq @ ''false'' @ dq @ '']}'',
      ''    filename::~Title     {stream.filename::~Title['' @ dq @ ''true'' @ dq @ ''||'' @ dq @ ''false'' @ dq @ '']}'',
      ''    filename::=test     {stream.filename::=test['' @ dq @ ''true'' @ dq @ ''||'' @ dq @ ''false'' @ dq @ '']}'',
      ''  Number: {stream.size}'',
      ''    filesize::>=100     {stream.size::>=100['' @ dq @ ''true'' @ dq @ ''||'' @ dq @ ''false'' @ dq @ '']}'',
      ''    filesize::>50       {stream.size::>50['' @ dq @ ''true'' @ dq @ ''||'' @ dq @ ''false'' @ dq @ '']}'',
      ''    filesize::<=200     {stream.size::<=200['' @ dq @ ''true'' @ dq @ ''||'' @ dq @ ''false'' @ dq @ '']}'',
      ''    filesize::<150      {stream.size::<150['' @ dq @ ''true'' @ dq @ ''||'' @ dq @ ''false'' @ dq @ '']}'',
      ''  Boolean: {stream.proxied}'',
      ''    ::istrue {stream.proxied::istrue['' @ dq @ ''true'' @ dq @ ''||'' @ dq @ ''false'' @ dq @ '']}'',
      ''    ::isfalse {stream.proxied::isfalse['' @ dq @ ''true'' @ dq @ ''||'' @ dq @ ''false'' @ dq @ '']}'',
      ''{tools.newLine}'',
      [],
      ''[Advanced] Multiple modifiers'',
      ''  <string>::reverse::title::reverse   {config.addonName} -> {config.addonName::reverse::title::reverse}'',
      ''  <number>::string::reverse           {stream.size} -> {stream.size::string::reverse}'',
      ''  <array>::string::reverse            {stream.languages} -> {stream.languages::join('' @ dq @ ''::'' @ dq @ '')::reverse}'',
      ''  <boolean>::length::>=2              {stream.languages} -> {stream.languages::length::>=2['' @ dq @ ''true'' @ dq @ ''||'' @ dq @ ''false'' @ dq @ '']}'',
      []]"

definition debugComparatorLines :: "string list" where
  "debugComparatorLines =
     [[],
      ''Comparators: <stream.library({stream.library})>::comparator::<stream.proxied({stream.proxied})>'',
      ''  ::and:: {stream.library::and::stream.proxied['' @ dq @ ''true'' @ dq @ ''||'' @ dq @ ''false'' @ dq @ '']}'',
      ''  ::or:: {stream.library::or::stream.proxied['' @ dq @ ''true'' @ dq @ ''||'' @ dq @ ''false'' @ dq @ '']}'',
      ''  ::xor:: {stream.library::xor::stream.proxied['' @ dq @ ''true'' @ dq @ ''||'' @ dq @ ''false'' @ dq @ '']}'',
      ''  ::neq:: {stream.library::neq::stream.proxied['' @ dq @ ''true'' @ dq @ ''||'' @ dq @ ''false'' @ dq @ '']}'',
      ''  ::equal:: {stream.library::equal::stream.proxied['' @ dq @ ''true'' @ dq @ ''||'' @ dq @ ''false'' @ dq @ '']}'',
      ''  ::left:: {stream.library::left::stream.proxied['' @ dq @ ''true'' @ dq @ ''||'' @ dq @ ''false'' @ dq @ '']}'',
      ''  ::right:: {stream.library::right::stream.proxied['' @ dq @ ''true'' @ dq @ ''||'' @ dq @ ''false'' @ dq @ '']}'',
      ''{tools.newLine}'',
      [],
      ''[Advanced] Multiple Comparators'',
      ''  Is English'',
      ''    stream.languages::~English::or::stream.languages::~dub::and::stream.languages::length::>0['' @ dq @ ''Yes'' @ dq @ ''||'' @ dq @ ''Unknown'' @ dq @ '']  ->  {stream.languages::~English::or::stream.languages::~dub::and::stream.languages::length::>0['' @ dq @ ''Yes'' @ dq @ ''||'' @ dq @ ''Unknown'' @ dq @ '']}'',
      ''  Is Fast Enough Link'',
      ''    service.cached::or::stream.library::or::stream.seeders::>10['' @ dq @ ''true'' @ dq @ ''||'' @ dq @ ''false'' @ dq @ '']  ->  {service.cached::istrue::or::stream.library::or::stream.seeders::>10['' @ dq @ ''true'' @ dq @ ''||'' @ dq @ ''false'' @ dq @ '']}'',
      []]"

definition lineFeed :: string where
  "lineFeed = [CHR 0x0A]"

definition DebugToolReplacementConstants :: "(string \<times> string) list" where
  "DebugToolReplacementConstants =
     [(''modifier'', join debugModifierLines lineFeed),
      (''comparator'', join debugComparatorLines lineFeed)]"

text \<open>
  \<open>str.replace(pattern, text)\<close> for a pattern that is a string: the first occurrence. (The
  two texts above contain none of the \<open>$\<close> sequences that \<open>replace\<close> reads in a replacement.)
\<close>

definition replaceFirst :: "string \<Rightarrow> string \<Rightarrow> string \<Rightarrow> string" where
  "replaceFirst str pat rep =
     (let i = indexOf str pat
      in if i < 0 then str else take (nat i) str @ rep @ drop (nat i + length pat) str)"

text \<open>\<open>str.replace(re, text)\<close> for a pattern with the \<open>g\<close> flag.\<close>

function replaceAllRx :: "bool \<Rightarrow> nat \<Rightarrow> rx \<Rightarrow> string \<Rightarrow> string \<Rightarrow> string" where
  "replaceAllRx ci n0 r rep [] = (case matchAt ci n0 r [] of None \<Rightarrow> [] | Some m \<Rightarrow> rep)"
| "replaceAllRx ci n0 r rep (x # xs) =
     (case matchAt ci n0 r (x # xs) of
        None \<Rightarrow> x # replaceAllRx ci n0 r rep xs
      | Some m \<Rightarrow>
          if fst m = 0 then rep @ x # replaceAllRx ci n0 r rep xs
          else rep @ replaceAllRx ci n0 r rep (drop (fst m) (x # xs)))"
  by pat_completeness auto
termination
  by (relation "measure (\<lambda>(ci :: bool, n0 :: nat, r :: rx, rep :: string, s :: string). length s)")
     auto

definition strReplaceAll :: "rx \<Rightarrow> string \<Rightarrow> string \<Rightarrow> string" where
  "strReplaceAll r rep s = replaceAllRx False (length s) r rep s"

definition preProcess :: "string \<Rightarrow> string" where
  "preProcess str =
     foldl (\<lambda>s kv. replaceFirst s (''{debug.'' @ fst kv @ ''}'') (snd kv)) str
       DebugToolReplacementConstants"

definition postProcess :: "string \<Rightarrow> string" where
  "postProcess s =
     strReplaceAll (seqs [Lit ''{tools'', Cls CDot, Lit ''newline}'']) lineFeed
       (join
          (filter (\<lambda>line. trim line \<noteq> [] \<and> \<not> includesStr line ''{tools.removeline}'')
             (splitChar (strReplaceAll (Lit ([CHR 0x5C] @ ''n'')) lineFeed s) CHR 0x0A))
          lineFeed)"

text \<open>
  \<open>compileTemplate\<close> is the compiled template, \<open>runTemplate\<close> the function it returns, and
  \<open>format\<close> what \<open>BaseFormatter.format\<close> does with the namespace instance of a stream: the
  name is rendered before the description. An exception thrown by a compilation reaches
  the caller of \<open>format\<close>, which awaits both compilations.
\<close>

definition compileTemplate :: "shape \<Rightarrow> string \<Rightarrow> jsError + (string \<times> node list)" where
  "compileTemplate sh str = compileTemplateHelper sh (preProcess str)"

definition runTemplate ::
  "('n :: linorder) env \<Rightarrow> shape \<Rightarrow> string \<times> node list \<Rightarrow> ParseValue \<Rightarrow> rstate
     \<Rightarrow> jsError + (string \<times> rstate)" where
  "runTemplate env sh compiled parseValue st =
     (case runCompiled env sh compiled parseValue st of
        Inl e \<Rightarrow> Inl e
      | Inr r \<Rightarrow> Inr (postProcess (fst r), snd r))"

definition render ::
  "('n :: linorder) env \<Rightarrow> shape \<Rightarrow> string \<Rightarrow> ParseValue \<Rightarrow> rstate
     \<Rightarrow> jsError + (string \<times> rstate)" where
  "render env sh str parseValue st =
     (case compileTemplate sh str of
        Inl e \<Rightarrow> Inl e
      | Inr compiled \<Rightarrow> runTemplate env sh compiled parseValue st)"

record FormatterConfig =
  name :: string
  description :: string

definition format ::
  "('n :: linorder) env \<Rightarrow> shape \<Rightarrow> FormatterConfig \<Rightarrow> ParseValue \<Rightarrow> rstate
     \<Rightarrow> jsError + ((string \<times> string) \<times> rstate)" where
  "format env sh config parseValue st =
     (case compileTemplate sh (name config) of
        Inl e \<Rightarrow> Inl e
      | Inr precompiledNameFunction \<Rightarrow>
          (case compileTemplate sh (description config) of
             Inl e \<Rightarrow> Inl e
           | Inr precompiledDescriptionFunction \<Rightarrow>
               (case runTemplate env sh precompiledNameFunction parseValue st of
                  Inl e \<Rightarrow> Inl e
                | Inr n \<Rightarrow>
                    (case runTemplate env sh precompiledDescriptionFunction parseValue (snd n) of
                       Inl e \<Rightarrow> Inl e
                     | Inr d \<Rightarrow> Inr ((fst n, fst d), snd d)))))"

section \<open>A host and a namespace instance to run the model on\<close>

text \<open>
  \<open>decimalNumber\<close> is \<open>Number(s)\<close> on the texts it reads: an integer in decimal digits with
  an optional sign, white space around it, and the empty text, which is 0. On every other
  text it answers \<open>NaN\<close>. The \<open>k\<close>-th draw of \<open>exampleHost\<close> picks the element \<open>k mod n\<close> of
  an array of \<open>n\<close> elements. \<open>exampleStart\<close> is the state before the first run: no draw made,
  and the arrays of \<open>exampleValue\<close> in the store.
\<close>

fun digitsToNat :: "string \<Rightarrow> nat \<Rightarrow> nat option" where
  "digitsToNat [] acc = Some acc"
| "digitsToNat (c # cs) acc =
     (case map_of (zip ''0123456789'' [0 ..< 10]) c of
        None \<Rightarrow> None
      | Some d \<Rightarrow> digitsToNat cs (10 * acc + d))"

definition decimalNumber :: "string \<Rightarrow> int option" where
  "decimalNumber s =
     (case trim s of
        [] \<Rightarrow> Some 0
      | c # cs \<Rightarrow>
          if c = CHR ''-'' \<and> cs \<noteq> [] then map_option (\<lambda>n. - int n) (digitsToNat cs 0)
          else if c = CHR ''+'' \<and> cs \<noteq> [] then map_option int (digitsToNat cs 0)
          else map_option int (digitsToNat (c # cs) 0))"

definition exampleHost :: "int env" where
  "exampleHost =
     \<lparr> toNumber = decimalNumber, formatBytes = (\<lambda>v b. numToString 10 v),
       formatDuration = (\<lambda>v. numToString 10 v), toLocaleString = (\<lambda>v. numToString 10 v),
       btoa = (\<lambda>v. v), replaceAll = (\<lambda>s a b. s), splitByPattern = (\<lambda>p s. Inr [s]),
       randomFloor = (\<lambda>k n. k mod n) \<rparr>"

definition exampleValue :: ParseValue where
  "exampleValue section field =
     (if section = ''config'' \<and> field = ''addonName'' then JStr ''AIO''
      else if section = ''stream'' \<and> field = ''size'' then JNum 1024
      else if section = ''stream'' \<and> field = ''library'' then JBool True
      else if section = ''stream'' \<and> field = ''proxied'' then JBool False
      else if section = ''stream'' \<and> field = ''languages'' then JArr 0
      else if section = ''stream'' \<and> field = ''title''
        then JStr ''stream.languages::random::left::''
      else if section = ''tools'' \<and> field = ''removeline'' then JStr ''{tools.removeline}''
      else if section = ''tools'' \<and> field = ''newline'' then JStr ''{tools.newline}''
      else JNull)"

definition exampleStart :: rstate where
  "exampleStart = \<lparr> draws = 0, arrays = [[''English'', ''Italian'']] \<rparr>"

section \<open>Notions used to state the properties\<close>

text \<open>
  \<open>frame st st'\<close>: a run that starts in \<open>st\<close> and ends in \<open>st'\<close> has made draws and has put
  new arrays at the end of the store, and has done nothing else.
\<close>

definition frame :: "rstate \<Rightarrow> rstate \<Rightarrow> bool" where
  "frame st st' \<longleftrightarrow> draws st \<le> draws st' \<and> (\<exists>ext. arrays st' = arrays st @ ext)"











section \<open>Lemmas on the evaluator\<close>

subsection \<open>A run only draws and allocates\<close>

lemma frame_refl [simp]: "frame st st"
  by (simp add: frame_def)

lemma frame_trans: "frame a b \<Longrightarrow> frame b c \<Longrightarrow> frame a c"
  by (auto simp: frame_def)


lemma arrayModifiers_frame: "frame st (snd (arrayModifiers env key a st))"
  by (simp add: arrayModifiers_def frame_def Let_def spreadCopy_def sortInPlace_def
        reverseInPlace_def)

lemma applySingleModifier_frame:
  assumes "applySingleModifier env v m st = Inr (r, st')"
  shows "frame st st'"
proof (cases "isExact (toLowerCase m) \<or> isPrefix (toLowerCase m)")
  case True
  with assms show ?thesis by (auto simp: applySingleModifier_def)
next
  case False
  with assms show ?thesis
    by (cases v)
       (auto simp: applySingleModifier_def Let_def arrayModifiers_frame
             split: if_splits sum.splits)
qed

lemma applyModifiers_frame:
  "applyModifiers env p v mods st = Inr (r, st') \<Longrightarrow> frame st st'"
proof (induction mods arbitrary: v st)
  case Nil
  then show ?case by simp
next
  case (Cons m mods)
  then show ?case
    by (auto split: sum.splits if_splits dest: applySingleModifier_frame intro: frame_trans)
qed

lemma resolveSegment_frame:
  "resolveSegment env f pv st = Inr (r, st') \<Longrightarrow> frame st st'"
  by (cases f) (auto dest: applyModifiers_frame)

lemma resolveAll_frame:
  "resolveAll env fs pv st = Inr (rs, st') \<Longrightarrow> frame st st'"
proof (induction fs arbitrary: st rs)
  case Nil
  then show ?case by simp
next
  case (Cons f fs)
  then show ?case
    by (auto split: sum.splits dest: resolveSegment_frame intro: frame_trans)
qed

lemma compareVariables_frame:
  "compareVariables env f pv st = Inr (r, st') \<Longrightarrow> frame st st'"
  by (auto simp: compareVariables_def split: sum.splits list.splits dest: resolveAll_frame)

lemma resolveExpr_frame:
  "resolveExpr env f pv st = Inr (r, st') \<Longrightarrow> frame st st'"
  by (auto simp: resolveExpr_def split: sum.splits dest: compareVariables_frame)

lemma getResolvedVariable_frame:
  "getResolvedVariable env sh n pv st = Inr (r, st') \<Longrightarrow> frame st st'"
  "resolveNested env sh lbi vtw nws ns pv acc st = Inr (acc', st') \<Longrightarrow> frame st st'"
proof (induction env sh n pv st and env sh lbi vtw nws ns pv acc st
       arbitrary: r st' and acc' st' rule: getResolvedVariable_resolveNested.induct)
  case (1 env sh leftBracketIndex vtw gvt mc nws nested parseValue st)
  from "1.prems"(1) obtain acc1 st1 f where
    s1: "resolveNested env sh leftBracketIndex vtw nws nested parseValue (gvt, mc) st
         = Inr (acc1, st1)"
    and s3: "resolveExpr env f parseValue st1 = Inr (r, st')"
    by (auto split: sum.splits)
  from "1.IH" [OF s1] resolveExpr_frame [OF s3] show ?case
    by (rule frame_trans)
next
  case (2 env sh leftBracketIndex vtw nws parseValue acc st)
  then show ?case by simp
next
  case (3 env sh leftBracketIndex vtw nws n ns parseValue acc st)
  from "3.prems"(1) obtain r1 st1 where
    s1: "getResolvedVariable env sh n parseValue st = Inr (r1, st1)"
    and s2: "resolveNested env sh leftBracketIndex vtw nws ns parseValue
               (spliceNested leftBracketIndex vtw nws (insertedIndex n)
                  (replacementOf (arrays st1) r1) acc) st1 = Inr (acc', st')"
    by (auto split: sum.splits)
  from "3.IH"(1) [OF s1] "3.IH"(2) [of "(r1, st1)", simplified, OF s1 s2] show ?case
    by (rule frame_trans)
qed

lemma substituteAll_frame:
  "substituteAll env sh ns pv str st = Inr (out, st') \<Longrightarrow> frame st st'"
proof (induction ns arbitrary: str st)
  case Nil
  then show ?case by simp
next
  case (Cons n ns)
  then show ?case
    by (auto split: sum.splits dest: getResolvedVariable_frame(1) intro: frame_trans)
qed

lemma runTemplate_frame:
  "runTemplate env sh c pv st = Inr (out, st') \<Longrightarrow> frame st st'"
  by (auto simp: runTemplate_def runCompiled_def split: sum.splits dest: substituteAll_frame)

lemma format_frame:
  assumes "format env sh config pv st = Inr (out, st')"
  shows "frame st st'"
proof -
  from assms obtain c1 c2 n st1 d where
    "runTemplate env sh c1 pv st = Inr (n, st1)"
    and "runTemplate env sh c2 pv st1 = Inr (d, st')"
    by (auto simp: format_def split: sum.splits)
  then show ?thesis
    by (blast intro: frame_trans dest: runTemplate_frame)
qed

subsection \<open>A run without a draw does not depend on the random source\<close>

lemma prefixOperands_env [simp]:
  "prefixOperands (env\<lparr>randomFloor := g\<rparr>) key a b = prefixOperands env key a b"
  by (simp add: prefixOperands_def)

lemma prefixConditional_env [simp]:
  "prefixConditional (env\<lparr>randomFloor := g\<rparr>) h v m = prefixConditional env h v m"
  by (simp add: prefixConditional_def Let_def split: option.splits)

lemma conditional_env [simp]:
  "conditional (env\<lparr>randomFloor := g\<rparr>) h v m = conditional env h v m"
  by (simp add: conditional_def conditionalBody_def)

lemma stringModifiers_env [simp]:
  "stringModifiers (env\<lparr>randomFloor := g\<rparr>) key v = stringModifiers env key v"
  by (simp add: stringModifiers_def)

lemma numberModifiers_env [simp]:
  "numberModifiers (env\<lparr>randomFloor := g\<rparr>) key v = numberModifiers env key v"
  by (simp add: numberModifiers_def)

lemma replaceModifier_env [simp]:
  "replaceModifier (env\<lparr>randomFloor := g\<rparr>) v m m0 = replaceModifier env v m m0"
  by (simp add: replaceModifier_def Let_def split: sum.splits)











subsection \<open>Evaluations on concrete templates\<close>

lemma applySingleModifier_number:
  assumes "\<not> isExact (toLowerCase m)" and "\<not> isPrefix (toLowerCase m)"
    and "toLowerCase m \<in> set numberModifierKeys"
  shows "applySingleModifier env (JNum v) m st
         = Inr (JStr (numberModifiers env (toLowerCase m) v), st)"
  using assms by (simp add: applySingleModifier_def)

lemma applySingleModifier_string:
  assumes "\<not> isExact (toLowerCase m)" and "\<not> isPrefix (toLowerCase m)"
    and "toLowerCase m \<in> set stringModifierKeys"
  shows "applySingleModifier env (JStr v) m st
         = Inr (JStr (stringModifiers env (toLowerCase m) v), st)"
  using assms by (simp add: applySingleModifier_def)

lemma compileTemplate_doesnotexist:
  "compileTemplate parseValueShape ''{stream.doesnotexist}'' = Inr (''{stream.doesnotexist}'', [])"
  by code_simp

lemma postProcess_doesnotexist:
  "postProcess ''{stream.doesnotexist}'' = ''{stream.doesnotexist}''"
  by code_simp

lemma render_doesnotexist:
  "render env parseValueShape ''{stream.doesnotexist}'' parseValue st
     = Inr (''{stream.doesnotexist}'', st)"
  by (simp add: render_def runTemplate_def runCompiled_def compileTemplate_doesnotexist
        postProcess_doesnotexist)

lemma nested_compile:
  "compileTemplate parseValueShape ''{config.addonName::length::>={stream.size::string::length}}''
   = Inr (''X'',
      [Node 0 ''config.addonName::length::>=X''
        ''config.addonName::length::>=X'' None
        [0, 0, 0, 0, 0, 0, 0, 0, 0, 0, 0, 0, 0, 0, 0, 0, 0, 0, 0, 0, 0, 0,
         0, 0, 0, 0, 0, 0, 0]
        [Node 29 ''stream.size::string::length''
          ''stream.size::string::length'' None
          [0, 0, 0, 0, 0, 0, 0, 0, 0, 0, 0, 0, 0, 0, 0, 0, 0, 0, 0, 0, 0, 0,
           0, 0, 0, 0, 0]
          []]])"
  by code_simp

lemma nested_inner_parse:
  "parseVariable parseValueShape ''stream.size::string::length'' None
   = Inr (ExprFn [Reading ''stream'' ''size'' [''string'', ''length'']] [] None)"
  by code_simp

lemma nested_outer_parse:
  "parseVariable parseValueShape ''4config.addonName::length::>=X'' None
   = Inr (ExprFn [Failing ''{unknown_variableType(undefined)}''] [] None)"
  by code_simp

lemma nested_splice:
  "spliceNested 0 ''config.addonName::length::>=X''
        [0, 0, 0, 0, 0, 0, 0, 0, 0, 0, 0, 0, 0, 0, 0, 0, 0, 0, 0, 0, 0, 0,
         0, 0, 0, 0, 0, 0, 0] 29 ''4'' (''config.addonName::length::>=X'', None)
   = (''4config.addonName::length::>=X'', None)"
  by code_simp

lemma nested_mods:
  "\<not> isExact ''string''" "\<not> isPrefix ''string''"
  "toLowerCase ''string'' = ''string''"
  "\<not> isExact ''length''" "\<not> isPrefix ''length''"
  "toLowerCase ''length'' = ''length''"
  "numToString 10 1024 = ''1024''" "numToString 10 4 = ''4''"
  by code_simp+

lemma nested_inner:
  assumes "parseValue ''stream'' ''size'' = JNum 1024"
  shows "getResolvedVariable env parseValueShape
           (Node 29 ''stream.size::string::length'' ''stream.size::string::length'' None
              [0, 0, 0, 0, 0, 0, 0, 0, 0, 0, 0, 0, 0, 0, 0, 0, 0, 0, 0, 0, 0, 0, 0, 0, 0, 0, 0] [])
           parseValue st
         = Inr (Result (JStr ''4''), st)"
  using assms
  by (simp add: nested_inner_parse resolveExpr_def compareVariables_def checkResolved_def
        applySingleModifier_number applySingleModifier_string nested_mods numberModifiers_def
        stringModifiers_def numberModifierKeys_def stringModifierKeys_def)

lemma nested_post:
  "postProcess ''{unknown_variableType(undefined)}'' = ''{unknown_variableType(undefined)}''"
  by code_simp




subsection \<open>Prefix conditionals\<close>










subsection \<open>Collisions in the namespace shape\<close>

lemma toLowerChar_idem [simp]: "toLowerChar (toLowerChar c) = toLowerChar c"
  by (simp add: toLowerChar_def upperLetters_def lowerLetters_def)

lemma toLowerCase_idem [simp]: "toLowerCase (toLowerCase s) = toLowerCase s"
  by (simp add: toLowerCase_def)









subsection \<open>The spans that the compiler replaces\<close>










section \<open>The claims\<close>

text \<open>
  C1. The template \<open>{config.addonName::length::>={stream.size::string::length}}\<close>, on a record
  whose addon name is \<open>AIO\<close> and whose size is 1024. The inner expression is resolved first, to
  \<open>4\<close>. Its text is then put into the variable text of the outer expression at the index
  \<open>relativeInsertIndex - numWhitespaceRemovedBeforeN[relativeInsertIndex]\<close>, where
  \<open>relativeInsertIndex\<close> counts from the left bracket and the table from the character after
  it: the table has no entry 29, the index is \<open>NaN\<close>, and the text goes to the start. The outer
  expression is then \<open>4config.addonName::length::>=X\<close>, which names no section: the rendering
  is the tag of an unknown section, not \<open>false\<close>.
\<close>

theorem C1_nested_value_is_put_at_the_start:
  assumes "parseValue ''config'' ''addonName'' = JStr ''AIO''"
    and "parseValue ''stream'' ''size'' = JNum 1024"
  shows "render env parseValueShape
           ''{config.addonName::length::>={stream.size::string::length}}'' parseValue st
         = Inr (''{unknown_variableType(undefined)}'', st)"
proof -
  have "getResolvedVariable env parseValueShape
          (Node 0 ''config.addonName::length::>=X'' ''config.addonName::length::>=X'' None
            [0, 0, 0, 0, 0, 0, 0, 0, 0, 0, 0, 0, 0, 0, 0, 0, 0, 0, 0, 0, 0, 0,
             0, 0, 0, 0, 0, 0, 0]
            [Node 29 ''stream.size::string::length'' ''stream.size::string::length'' None
              [0, 0, 0, 0, 0, 0, 0, 0, 0, 0, 0, 0, 0, 0, 0, 0, 0, 0, 0, 0, 0, 0,
               0, 0, 0, 0, 0] []])
          parseValue st
        = Inr (Err ''{unknown_variableType(undefined)}'', st)"
    apply (subst getResolvedVariable.simps)
    apply (simp add: nested_inner [where parseValue = parseValue, OF assms(2)] nested_splice
             nested_outer_parse replacementOf_def jsString_def resolveExpr_def
             compareVariables_def checkResolved_def
           del: getResolvedVariable.simps)
    done
  then show ?thesis
    by (simp add: render_def runTemplate_def runCompiled_def nested_compile replacementOf_def
          PLACEHOLDER_def nested_post del: getResolvedVariable.simps)
qed

theorem C1_witness:
  "exampleValue ''config'' ''addonName'' = JStr ''AIO''
   \<and> exampleValue ''stream'' ''size'' = JNum 1024
   \<and> render exampleHost parseValueShape
        ''{config.addonName::length::>={stream.size::string::length}}'' exampleValue exampleStart
      = Inr (''{unknown_variableType(undefined)}'', exampleStart)"
  using C1_nested_value_is_put_at_the_start [of exampleValue exampleHost exampleStart]
  by (simp add: exampleValue_def)

text \<open>
  C2. The template \<open>{stream.doesnotexist}\<close>. As amended: for every record the rendering is
  the template itself, \<open>{stream.doesnotexist}\<close>. The grammar has no field of that name, so the
  text is no expression and the tag \<open>unknown_propertyName\<close> is never made.
\<close>

theorem C2_unknown_field_stays_literal:
  "render env parseValueShape ''{stream.doesnotexist}'' parseValue st
     = Inr (''{stream.doesnotexist}'', st)"
  by (rule render_doesnotexist)

theorem C2_counterexample:
  "render exampleHost parseValueShape ''{stream.doesnotexist}'' exampleValue exampleStart
     = Inr (''{stream.doesnotexist}'', exampleStart)
   \<and> ''{stream.doesnotexist}'' \<noteq> ''{unknown_propertyName(stream.doesnotexist)}''"
  by (simp add: render_doesnotexist)



text \<open>
  C7. An expression of two segments joined by \<open>and\<close>, the first of which resolves to an
  error (\<open>upper\<close> is no modifier of a number). Without a conditional suffix the expression
  resolves to that first error. With the suffix \<open>["Y"||"N"]\<close> the check logic looks at the
  value of the reduced result only, which an error does not have: the first error is
  replaced by the tag \<open>{cannot_coerce_boolean_for_check_from(undefined)}\<close>.
\<close>

theorem C7_first_error_is_replaced_under_a_check:
  "render exampleHost parseValueShape ''{stream.size::upper::and::stream.proxied}''
     exampleValue exampleStart
   = Inr (''{unknown_number_modifier(upper)}'', exampleStart)
   \<and> render exampleHost parseValueShape
       (''{stream.size::upper::and::stream.proxied['' @ dq @ ''Y'' @ dq @ ''||'' @ dq @ ''N''
        @ dq @ '']}'')
       exampleValue exampleStart
     = Inr (''{cannot_coerce_boolean_for_check_from(undefined)}'', exampleStart)"
  by code_simp




text \<open>
  C10. Evaluating the two compiled templates of a formatter against a namespace instance
  leaves the instance as it was: the instance is read only, and every array that was in the
  store before \<open>format\<close> is in it unchanged after \<open>format\<close> has returned. The modifiers \<open>sort\<close>
  and \<open>reverse\<close> work on copies, which are new arrays.
\<close>

theorem C10_format_leaves_the_arrays_unchanged:
  assumes "format env sh config parseValue st = Inr (out, st')"
  shows "take (length (arrays st)) (arrays st') = arrays st"
  using format_frame [OF assms] by (auto simp: frame_def)

theorem C10_witness:
  "format exampleHost parseValueShape
     \<lparr>name = ''{stream.languages::sort}'', description = ''{stream.languages::reverse}''\<rparr>
     exampleValue exampleStart
   = Inr ((''English,Italian'', ''Italian,English''),
          \<lparr>draws = 0,
           arrays = [[''English'', ''Italian''], [''English'', ''Italian''],
                     [''Italian'', ''English'']]\<rparr>)
   \<and> take (length (arrays exampleStart))
        [[''English'', ''Italian''], [''English'', ''Italian''], [''Italian'', ''English'']]
     = arrays exampleStart"
proof -
  have a: "format exampleHost parseValueShape
             \<lparr>name = ''{stream.languages::sort}'', description = ''{stream.languages::reverse}''\<rparr>
             exampleValue exampleStart
           = Inr ((''English,Italian'', ''Italian,English''),
                  \<lparr>draws = 0,
                   arrays = [[''English'', ''Italian''], [''English'', ''Italian''],
                             [''Italian'', ''English'']]\<rparr>)"
    by code_simp
  from C10_format_leaves_the_arrays_unchanged [OF a] a show ?thesis
    by simp
qed
















end
